theory Spec2Isabelle
  imports Main "HOL-Library.Sublist"
begin

section \<open>Values, property bags, errors and effects\<close>

text \<open>
  The values the bus client hands over inside a \<^verbatim>\<open>{ value: ... }\<close> wrapper: booleans,
  numbers, strings, arrays and dictionaries decoded from a bus variant. The classes cast
  them with \<^verbatim>\<open>as\<close>, which checks nothing at run time, so a field holds whatever value
  arrived. Numbers are only stored and handed on, never computed with; they are integers
  here. A decoded variant is never \<^verbatim>\<open>undefined\<close> or \<^verbatim>\<open>null\<close>; \<^verbatim>\<open>null\<close> in a nullable
  field is \<open>None\<close>.
\<close>

datatype jsval =
    JBool bool
  | JNum int
  | JStr string
  | JArr "jsval list"
  | JObj "(string \<times> jsval) list"

text \<open>
  A property bag \<^verbatim>\<open>{ [key: string]: { value: unknown } }\<close>, as the list
  \<^verbatim>\<open>Object.entries\<close> gives for it: the pairs of a property name and the wrapped value.
  The keys of an object are distinct.
\<close>

type_synonym bag = "(string \<times> jsval) list"

text \<open>
  The result of \<^verbatim>\<open>GetManagedObjects()\<close>, again as its \<^verbatim>\<open>Object.entries\<close>: object
  path, then interface name, then property bag.
\<close>

type_synonym managed_objects = "(string \<times> (string \<times> bag) list) list"

text \<open>
  \<open>TypeError\<close> is what reading \<^verbatim>\<open>.value\<close> of a missing property (or the keys of a
  missing object) throws; \<open>Error\<close> is a \<^verbatim>\<open>new Error(message)\<close> of the library;
  \<open>DBusError\<close> is a rejected remote call.
\<close>

datatype error = TypeError | Error string | DBusError string

text \<open>What a notification handler does besides assigning fields, in the order it does it.\<close>

datatype effect = Emit_change | Warn string

definition emitted :: "effect list \<Rightarrow> nat" where
  "emitted tr = length (filter (\<lambda>e. e = Emit_change) tr)"

fun warned :: "effect list \<Rightarrow> string list" where
  "warned [] = []"
| "warned (Emit_change # tr) = warned tr"
| "warned (Warn m # tr) = m # warned tr"

text \<open>
  The remote side, as far as the classes call it (a proxy object is fetched for the
  path first; a failure to get it is a failure of the call):
  \<^item> \<open>GetManagedObjects\<close> of the object manager at \<^verbatim>\<open>/\<close>;
  \<^item> \<open>Get\<close> and \<open>Set\<close> of \<^verbatim>\<open>org.freedesktop.DBus.Properties\<close> at an object path
    (path, interface, property; \<open>Set\<close> also takes the signature and the value of
    the \<^verbatim>\<open>Variant\<close>).
\<close>

record bus =
  GetManagedObjects :: "error + managed_objects"
  Get :: "string \<Rightarrow> string \<Rightarrow> string \<Rightarrow> error + jsval"
  Set :: "string \<Rightarrow> string \<Rightarrow> string \<Rightarrow> string \<Rightarrow> jsval \<Rightarrow> error + unit"

text \<open>\<^verbatim>\<open>bag.Prop.value\<close> throws when the property is missing; \<^verbatim>\<open>bag.Prop?.value\<close> is
  \<^verbatim>\<open>undefined\<close> then.\<close>

definition required :: "bag \<Rightarrow> string \<Rightarrow> error + jsval" where
  "required b prop = (case map_of b prop of None \<Rightarrow> Inl TypeError | Some v \<Rightarrow> Inr v)"

text \<open>Sequencing: an exception thrown by the first step skips the rest.\<close>

fun and_then :: "error + 'a \<Rightarrow> ('a \<Rightarrow> error + 'b) \<Rightarrow> error + 'b" where
  "and_then (Inl e) f = Inl e"
| "and_then (Inr x) f = f x"

definition optional :: "bag \<Rightarrow> string \<Rightarrow> jsval option" where
  "optional b prop = map_of b prop"

section \<open>Adapter (class Adapter, lib/adapter.ts)\<close>

record adapter =
  a_path :: string
  a_address :: jsval
  a_name :: jsval
  a_alias :: jsval
  a_class :: jsval
  a_powered :: jsval
  a_discoverable :: jsval
  a_pairable :: jsval
  a_pairableTimeout :: jsval
  a_discoverableTimeout :: jsval
  a_discovering :: jsval
  a_uuids :: jsval
  a_modalias :: "jsval option"

text \<open>The \<^verbatim>\<open>data\<close> argument of the constructor; \<^verbatim>\<open>modalias?\<close> may be undefined.\<close>

record adapter_data =
  ad_address :: jsval
  ad_name :: jsval
  ad_alias :: jsval
  ad_class :: jsval
  ad_powered :: jsval
  ad_discoverable :: jsval
  ad_pairable :: jsval
  ad_pairableTimeout :: jsval
  ad_discoverableTimeout :: jsval
  ad_discovering :: jsval
  ad_uuids :: jsval
  ad_modalias :: "jsval option"

text \<open>The constructor; \<^verbatim>\<open>data.modalias ?? null\<close> turns undefined into null, both
  \<open>None\<close>. It ends by subscribing to the change notifications, handled below.\<close>

definition Adapter_new :: "string \<Rightarrow> adapter_data \<Rightarrow> adapter" where
  "Adapter_new path data =
     \<lparr> a_path = path,
       a_address = ad_address data,
       a_name = ad_name data,
       a_alias = ad_alias data,
       a_class = ad_class data,
       a_powered = ad_powered data,
       a_discoverable = ad_discoverable data,
       a_pairable = ad_pairable data,
       a_pairableTimeout = ad_pairableTimeout data,
       a_discoverableTimeout = ad_discoverableTimeout data,
       a_discovering = ad_discovering data,
       a_uuids = ad_uuids data,
       a_modalias = ad_modalias data \<rparr>"

text \<open>\<^verbatim>\<open>Adapter.fromDBusObject\<close>: the object literal is evaluated top to bottom, and the
  first required property that is missing throws.\<close>

definition Adapter_fromDBusObject :: "string \<times> bag \<Rightarrow> error + adapter" where
  "Adapter_fromDBusObject data =
     and_then (required (snd data) ''Address'') (\<lambda>address.
     and_then (required (snd data) ''Name'') (\<lambda>name.
     and_then (required (snd data) ''Alias'') (\<lambda>alias.
     and_then (required (snd data) ''Class'') (\<lambda>cls.
     and_then (required (snd data) ''Powered'') (\<lambda>powered.
     and_then (required (snd data) ''Discoverable'') (\<lambda>discoverable.
     and_then (required (snd data) ''Pairable'') (\<lambda>pairable.
     and_then (required (snd data) ''PairableTimeout'') (\<lambda>pairableTimeout.
     and_then (required (snd data) ''DiscoverableTimeout'') (\<lambda>discoverableTimeout.
     and_then (required (snd data) ''Discovering'') (\<lambda>discovering.
     and_then (required (snd data) ''UUIDs'') (\<lambda>uuids.
       Inr (Adapter_new (fst data)
         \<lparr> ad_address = address,
           ad_name = name,
           ad_alias = alias,
           ad_class = cls,
           ad_powered = powered,
           ad_discoverable = discoverable,
           ad_pairable = pairable,
           ad_pairableTimeout = pairableTimeout,
           ad_discoverableTimeout = discoverableTimeout,
           ad_discovering = discovering,
           ad_uuids = uuids,
           ad_modalias = optional (snd data) ''Modalias'' \<rparr>))))))))))))"

text \<open>\<^verbatim>\<open>setProperty\<close>: the asynchronous remote write; its result is the promise's.\<close>

definition Adapter_setProperty :: "bus \<Rightarrow> adapter \<Rightarrow> string \<Rightarrow> string \<Rightarrow> jsval \<Rightarrow> error + unit" where
  "Adapter_setProperty b a prop signature v =
     Set b (a_path a) ''org.bluez.Adapter1'' prop signature v"

text \<open>The setters assign the field, start \<^verbatim>\<open>setProperty\<close> and drop its promise.\<close>

definition Adapter_set_alias :: "bus \<Rightarrow> string \<Rightarrow> adapter \<Rightarrow> adapter" where
  "Adapter_set_alias b v a =
     (let a' = a\<lparr>a_alias := JStr v\<rparr>;
          dropped = Adapter_setProperty b a' ''Alias'' ''s'' (JStr v)
      in a')"

definition Adapter_set_powered :: "bus \<Rightarrow> bool \<Rightarrow> adapter \<Rightarrow> adapter" where
  "Adapter_set_powered b v a =
     (let a' = a\<lparr>a_powered := JBool v\<rparr>;
          dropped = Adapter_setProperty b a' ''Powered'' ''b'' (JBool v)
      in a')"

definition Adapter_set_discoverable :: "bus \<Rightarrow> bool \<Rightarrow> adapter \<Rightarrow> adapter" where
  "Adapter_set_discoverable b v a =
     (let a' = a\<lparr>a_discoverable := JBool v\<rparr>;
          dropped = Adapter_setProperty b a' ''Discoverable'' ''b'' (JBool v)
      in a')"

definition Adapter_set_pairable :: "bus \<Rightarrow> bool \<Rightarrow> adapter \<Rightarrow> adapter" where
  "Adapter_set_pairable b v a =
     (let a' = a\<lparr>a_pairable := JBool v\<rparr>;
          dropped = Adapter_setProperty b a' ''Pairable'' ''b'' (JBool v)
      in a')"

definition Adapter_set_pairableTimeout :: "bus \<Rightarrow> int \<Rightarrow> adapter \<Rightarrow> adapter" where
  "Adapter_set_pairableTimeout b v a =
     (let a' = a\<lparr>a_pairableTimeout := JNum v\<rparr>;
          dropped = Adapter_setProperty b a' ''PairableTimeout'' ''u'' (JNum v)
      in a')"

definition Adapter_set_discoverableTimeout :: "bus \<Rightarrow> int \<Rightarrow> adapter \<Rightarrow> adapter" where
  "Adapter_set_discoverableTimeout b v a =
     (let a' = a\<lparr>a_discoverableTimeout := JNum v\<rparr>;
          dropped = Adapter_setProperty b a' ''DiscoverableTimeout'' ''u'' (JNum v)
      in a')"

text \<open>The \<^verbatim>\<open>switch\<close> of the handler: the object after the assignment, or \<open>None\<close> in
  the \<^verbatim>\<open>default\<close> branch.\<close>

definition Adapter_switch :: "string \<Rightarrow> jsval \<Rightarrow> adapter \<Rightarrow> adapter option" where
  "Adapter_switch prop v a =
     (if prop = ''Address'' then Some (a\<lparr>a_address := v\<rparr>)
      else if prop = ''Name'' then Some (a\<lparr>a_name := v\<rparr>)
      else if prop = ''Alias'' then Some (a\<lparr>a_alias := v\<rparr>)
      else if prop = ''Class'' then Some (a\<lparr>a_class := v\<rparr>)
      else if prop = ''Powered'' then Some (a\<lparr>a_powered := v\<rparr>)
      else if prop = ''Discoverable'' then Some (a\<lparr>a_discoverable := v\<rparr>)
      else if prop = ''Pairable'' then Some (a\<lparr>a_pairable := v\<rparr>)
      else if prop = ''PairableTimeout'' then Some (a\<lparr>a_pairableTimeout := v\<rparr>)
      else if prop = ''DiscoverableTimeout'' then Some (a\<lparr>a_discoverableTimeout := v\<rparr>)
      else if prop = ''Discovering'' then Some (a\<lparr>a_discovering := v\<rparr>)
      else if prop = ''UUIDs'' then Some (a\<lparr>a_uuids := v\<rparr>)
      else if prop = ''Modalias'' then Some (a\<lparr>a_modalias := Some v\<rparr>)
      else None)"

text \<open>The \<^verbatim>\<open>for\<close> loop over the entries: a recognised property is assigned and
  \<^verbatim>\<open>change\<close> is emitted inside the loop; the \<^verbatim>\<open>default\<close> branch warns and
  \<^verbatim>\<open>continue\<close>s.\<close>

fun Adapter_loop :: "bag \<Rightarrow> adapter \<Rightarrow> adapter \<times> effect list" where
  "Adapter_loop [] a = (a, [])"
| "Adapter_loop ((prop, v) # rest) a =
     (case Adapter_switch prop v a of
        None \<Rightarrow>
          (let (a', tr) = Adapter_loop rest a
           in (a', Warn (''bluen: Adapter: Unhandled property change: '' @ prop) # tr))
      | Some a1 \<Rightarrow>
          (let (a', tr) = Adapter_loop rest a1
           in (a', Emit_change # tr)))"

text \<open>The \<^verbatim>\<open>PropertiesChanged\<close> listener of an adapter.\<close>

definition Adapter_PropertiesChanged :: "adapter \<Rightarrow> string \<times> bag \<Rightarrow> adapter \<times> effect list" where
  "Adapter_PropertiesChanged a n =
     (if fst n \<noteq> ''org.bluez.Adapter1'' then (a, []) else Adapter_loop (snd n) a)"

text \<open>The property names with a \<^verbatim>\<open>case\<close> label in the switch.\<close>

definition Adapter_properties :: "string list" where
  "Adapter_properties =
     [''Address'', ''Name'', ''Alias'', ''Class'', ''Powered'', ''Discoverable'', ''Pairable'',
      ''PairableTimeout'', ''DiscoverableTimeout'', ''Discovering'', ''UUIDs'', ''Modalias'']"

section \<open>Device (class Device, after class Bluez in lib/bluez.ts)\<close>

text \<open>\<open>d_adapter\<close> is \<open>None\<close> while the field has not been assigned (it has no
  initialiser, and the constructor does not assign it).\<close>

record device =
  d_path :: string
  d_name :: "jsval option"
  d_icon :: "jsval option"
  d_class :: "jsval option"
  d_appearance :: "jsval option"
  d_uuids :: "jsval option"
  d_paired :: jsval
  d_connected :: jsval
  d_trusted :: jsval
  d_blocked :: jsval
  d_alias :: jsval
  d_adapter :: "adapter option"
  d_legacyPairing :: jsval
  d_modalias :: "jsval option"
  d_rssi :: "jsval option"
  d_txPower :: "jsval option"
  d_manufacturerData :: "jsval option"
  d_serviceData :: "jsval option"
  d_gattServices :: "jsval option"

record device_data =
  dd_name :: "jsval option"
  dd_icon :: "jsval option"
  dd_class :: "jsval option"
  dd_appearance :: "jsval option"
  dd_uuids :: "jsval option"
  dd_paired :: jsval
  dd_connected :: jsval
  dd_trusted :: jsval
  dd_blocked :: jsval
  dd_alias :: jsval
  dd_adapter :: jsval
  dd_legacyPairing :: jsval
  dd_modalias :: "jsval option"
  dd_rssi :: "jsval option"
  dd_txPower :: "jsval option"
  dd_manufacturerData :: "jsval option"
  dd_serviceData :: "jsval option"
  dd_gattServices :: "jsval option"

text \<open>
  The constructor. \<^verbatim>\<open>Adapter.fromPath(data.adapter).then(adapter => this._adapter = adapter)\<close>
  starts a lookup and returns at once: the constructor hands back the object, with
  \<open>d_adapter\<close> unassigned, together with the paths whose lookup it has started.
  \<^verbatim>\<open>Adapter.fromPath\<close> is not part of adapter.ts; it is a parameter wherever its result
  is used.
\<close>

definition Device_new :: "string \<Rightarrow> device_data \<Rightarrow> device \<times> jsval list" where
  "Device_new path data =
     (\<lparr> d_path = path,
        d_name = dd_name data,
        d_icon = dd_icon data,
        d_class = dd_class data,
        d_appearance = dd_appearance data,
        d_uuids = dd_uuids data,
        d_paired = dd_paired data,
        d_connected = dd_connected data,
        d_trusted = dd_trusted data,
        d_blocked = dd_blocked data,
        d_alias = dd_alias data,
        d_adapter = None,
        d_legacyPairing = dd_legacyPairing data,
        d_modalias = dd_modalias data,
        d_rssi = dd_rssi data,
        d_txPower = dd_txPower data,
        d_manufacturerData = dd_manufacturerData data,
        d_serviceData = dd_serviceData data,
        d_gattServices = dd_gattServices data \<rparr>,
      [dd_adapter data])"

text \<open>The \<^verbatim>\<open>then\<close> callback of the constructor's lookup, run when the lookup has
  resolved; a rejected lookup never runs it.\<close>

definition Device_adapter_resolved :: "error + adapter \<Rightarrow> device \<Rightarrow> device" where
  "Device_adapter_resolved r d =
     (case r of Inl e \<Rightarrow> d | Inr adapter \<Rightarrow> d\<lparr>d_adapter := Some adapter\<rparr>)"

definition Device_fromDBusObject :: "string \<times> bag \<Rightarrow> error + device \<times> jsval list" where
  "Device_fromDBusObject data =
     and_then (required (snd data) ''Paired'') (\<lambda>paired.
     and_then (required (snd data) ''Connected'') (\<lambda>connected.
     and_then (required (snd data) ''Trusted'') (\<lambda>trusted.
     and_then (required (snd data) ''Blocked'') (\<lambda>blocked.
     and_then (required (snd data) ''Alias'') (\<lambda>alias.
     and_then (required (snd data) ''Adapter'') (\<lambda>adapter.
     and_then (required (snd data) ''LegacyPairing'') (\<lambda>legacyPairing.
       Inr (Device_new (fst data)
         \<lparr> dd_name = optional (snd data) ''Name'',
           dd_icon = optional (snd data) ''Icon'',
           dd_class = optional (snd data) ''Class'',
           dd_appearance = optional (snd data) ''Appearance'',
           dd_uuids = optional (snd data) ''UUIDs'',
           dd_paired = paired,
           dd_connected = connected,
           dd_trusted = trusted,
           dd_blocked = blocked,
           dd_alias = alias,
           dd_adapter = adapter,
           dd_legacyPairing = legacyPairing,
           dd_modalias = optional (snd data) ''Modalias'',
           dd_rssi = optional (snd data) ''RSSI'',
           dd_txPower = optional (snd data) ''TxPower'',
           dd_manufacturerData = optional (snd data) ''ManufacturerData'',
           dd_serviceData = optional (snd data) ''ServiceData'',
           dd_gattServices = optional (snd data) ''GattServices'' \<rparr>))))))))"

text \<open>\<^verbatim>\<open>Array.prototype.map\<close> with a callback that may throw: the first exception ends it.\<close>

fun map_throw :: "('a \<Rightarrow> error + 'b) \<Rightarrow> 'a list \<Rightarrow> error + 'b list" where
  "map_throw f [] = Inr []"
| "map_throw f (x # xs) =
     and_then (f x) (\<lambda>y. and_then (map_throw f xs) (\<lambda>ys. Inr (y # ys)))"

text \<open>
  \<^verbatim>\<open>Device.allOfAdapter\<close>: the two filters, the projection to the bag of
  \<^verbatim>\<open>org.bluez.Device1\<close> and the constructor. An entry without that interface would give
  the constructor an undefined bag, whose first property read throws; the second filter
  lets no such entry through.
\<close>

definition Device_allOfAdapter :: "bus \<Rightarrow> adapter \<Rightarrow> error + (device \<times> jsval list) list" where
  "Device_allOfAdapter b adapter =
     and_then (GetManagedObjects b) (\<lambda>objects.
       map_throw
         (\<lambda>obj. case map_of (snd obj) ''org.bluez.Device1'' of
                None \<Rightarrow> Inl TypeError
              | Some props \<Rightarrow> Device_fromDBusObject (fst obj, props))
         (filter (\<lambda>obj. ''org.bluez.Device1'' \<in> set (map fst (snd obj)))
           (filter (\<lambda>obj. prefix (a_path adapter) (fst obj)) objects)))"

definition Device_setProperty :: "bus \<Rightarrow> device \<Rightarrow> string \<Rightarrow> string \<Rightarrow> jsval \<Rightarrow> error + unit" where
  "Device_setProperty b d prop signature v =
     Set b (d_path d) ''org.bluez.Device1'' prop signature v"

definition Device_set_trusted :: "bus \<Rightarrow> bool \<Rightarrow> device \<Rightarrow> device" where
  "Device_set_trusted b v d =
     (let d' = d\<lparr>d_trusted := JBool v\<rparr>;
          dropped = Device_setProperty b d' ''Trusted'' ''b'' (JBool v)
      in d')"

definition Device_set_blocked :: "bus \<Rightarrow> bool \<Rightarrow> device \<Rightarrow> device" where
  "Device_set_blocked b v d =
     (let d' = d\<lparr>d_blocked := JBool v\<rparr>;
          dropped = Device_setProperty b d' ''Blocked'' ''b'' (JBool v)
      in d')"

definition Device_set_alias :: "bus \<Rightarrow> string \<Rightarrow> device \<Rightarrow> device" where
  "Device_set_alias b v d =
     (let d' = d\<lparr>d_alias := JStr v\<rparr>;
          dropped = Device_setProperty b d' ''Alias'' ''s'' (JStr v)
      in d')"

text \<open>
  The \<^verbatim>\<open>switch\<close> of the asynchronous handler: \<open>Inr (Some d')\<close> after an assignment,
  \<open>Inr None\<close> in the \<^verbatim>\<open>default\<close> branch, \<open>Inl e\<close> when the awaited
  \<^verbatim>\<open>Adapter.fromPath(value)\<close> rejects with \<open>e\<close>. The lookup is the parameter
  \<open>fromPath\<close>.
\<close>

definition Device_switch ::
  "(jsval \<Rightarrow> error + adapter) \<Rightarrow> string \<Rightarrow> jsval \<Rightarrow> device \<Rightarrow> error + device option" where
  "Device_switch fromPath prop v d =
     (if prop = ''Name'' then Inr (Some (d\<lparr>d_name := Some v\<rparr>))
      else if prop = ''Icon'' then Inr (Some (d\<lparr>d_icon := Some v\<rparr>))
      else if prop = ''Class'' then Inr (Some (d\<lparr>d_class := Some v\<rparr>))
      else if prop = ''Appearance'' then Inr (Some (d\<lparr>d_appearance := Some v\<rparr>))
      else if prop = ''UUIDs'' then Inr (Some (d\<lparr>d_uuids := Some v\<rparr>))
      else if prop = ''Paired'' then Inr (Some (d\<lparr>d_paired := v\<rparr>))
      else if prop = ''Connected'' then Inr (Some (d\<lparr>d_connected := v\<rparr>))
      else if prop = ''Trusted'' then Inr (Some (d\<lparr>d_trusted := v\<rparr>))
      else if prop = ''Blocked'' then Inr (Some (d\<lparr>d_blocked := v\<rparr>))
      else if prop = ''Alias'' then Inr (Some (d\<lparr>d_alias := v\<rparr>))
      else if prop = ''Adapter'' then
        (case fromPath v of
           Inl e \<Rightarrow> Inl e
         | Inr adapter \<Rightarrow> Inr (Some (d\<lparr>d_adapter := Some adapter\<rparr>)))
      else if prop = ''LegacyPairing'' then Inr (Some (d\<lparr>d_legacyPairing := v\<rparr>))
      else if prop = ''Modalias'' then Inr (Some (d\<lparr>d_modalias := Some v\<rparr>))
      else if prop = ''RSSI'' then Inr (Some (d\<lparr>d_rssi := Some v\<rparr>))
      else if prop = ''TxPower'' then Inr (Some (d\<lparr>d_txPower := Some v\<rparr>))
      else if prop = ''ManufacturerData'' then Inr (Some (d\<lparr>d_manufacturerData := Some v\<rparr>))
      else if prop = ''ServiceData'' then Inr (Some (d\<lparr>d_serviceData := Some v\<rparr>))
      else if prop = ''GattServices'' then Inr (Some (d\<lparr>d_gattServices := Some v\<rparr>))
      else Inr None)"

text \<open>
  The loop of the handler, run from the delivery of the notification to the end of the
  handler, with each awaited lookup answered by \<open>fromPath\<close>. The third component is the
  error the handler's promise is rejected with, if any: a rejected lookup ends the loop
  where it stands, and the assignments made before it stay.
\<close>

fun Device_loop ::
  "(jsval \<Rightarrow> error + adapter) \<Rightarrow> bag \<Rightarrow> device \<Rightarrow> device \<times> effect list \<times> error option" where
  "Device_loop fromPath [] d = (d, [], None)"
| "Device_loop fromPath ((prop, v) # rest) d =
     (case Device_switch fromPath prop v d of
        Inl e \<Rightarrow> (d, [], Some e)
      | Inr None \<Rightarrow>
          (let (d', tr, r) = Device_loop fromPath rest d
           in (d', Warn (''bluen: Device: Unhandled property change: '' @ prop) # tr, r))
      | Inr (Some d1) \<Rightarrow>
          (let (d', tr, r) = Device_loop fromPath rest d1
           in (d', Emit_change # tr, r)))"

definition Device_PropertiesChanged ::
  "(jsval \<Rightarrow> error + adapter) \<Rightarrow> device \<Rightarrow> string \<times> bag \<Rightarrow> device \<times> effect list \<times> error option" where
  "Device_PropertiesChanged fromPath d n =
     (if fst n \<noteq> ''org.bluez.Device1'' then (d, [], None) else Device_loop fromPath (snd n) d)"

definition Device_properties :: "string list" where
  "Device_properties =
     [''Name'', ''Icon'', ''Class'', ''Appearance'', ''UUIDs'', ''Paired'', ''Connected'',
      ''Trusted'', ''Blocked'', ''Alias'', ''Adapter'', ''LegacyPairing'', ''Modalias'', ''RSSI'',
      ''TxPower'', ''ManufacturerData'', ''ServiceData'', ''GattServices'']"

section \<open>Battery (class Battery)\<close>

record battery =
  b_path :: string
  b_percentage :: jsval
  b_source :: "jsval option"

record battery_data =
  bd_percentage :: jsval
  bd_source :: "jsval option"

definition Battery_new :: "string \<Rightarrow> battery_data \<Rightarrow> battery" where
  "Battery_new path data =
     \<lparr> b_path = path, b_percentage = bd_percentage data, b_source = bd_source data \<rparr>"

text \<open>
  \<^verbatim>\<open>Battery.ofDevice\<close>: one query for the managed objects, the test for the battery
  interface among the keys of the device's entry, then the two property reads.
  \<^verbatim>\<open>Object.keys\<close> of a missing entry throws a TypeError.
\<close>

definition Battery_ofDevice :: "bus \<Rightarrow> device \<Rightarrow> error + battery" where
  "Battery_ofDevice b dev =
     and_then (GetManagedObjects b) (\<lambda>objects.
       case map_of objects (d_path dev) of
         None \<Rightarrow> Inl TypeError
       | Some object \<Rightarrow>
           if ''org.bluez.Battery1'' \<notin> set (map fst object) then
             Inl (Error ''bluen: Battery: Device does not support battery charge status interface'')
           else
             and_then (Get b (d_path dev) ''org.bluez.Battery1'' ''Percentage'') (\<lambda>percentage.
             and_then (Get b (d_path dev) ''org.bluez.Battery1'' ''Source'') (\<lambda>source.
               Inr (Battery_new (d_path dev)
                 \<lparr> bd_percentage = percentage, bd_source = Some source \<rparr>))))"

definition Battery_switch :: "string \<Rightarrow> jsval \<Rightarrow> battery \<Rightarrow> battery option" where
  "Battery_switch prop v b =
     (if prop = ''Percentage'' then Some (b\<lparr>b_percentage := v\<rparr>)
      else if prop = ''Source'' then Some (b\<lparr>b_source := Some v\<rparr>)
      else None)"

text \<open>The loop of the battery's handler emits nothing; \<^verbatim>\<open>change\<close> is emitted once
  after it.\<close>

fun Battery_loop :: "bag \<Rightarrow> battery \<Rightarrow> battery \<times> effect list" where
  "Battery_loop [] b = (b, [])"
| "Battery_loop ((prop, v) # rest) b =
     (case Battery_switch prop v b of
        None \<Rightarrow>
          (let (b', tr) = Battery_loop rest b
           in (b', Warn (''bluen: Battery: Unhandled property change: '' @ prop) # tr))
      | Some b1 \<Rightarrow> Battery_loop rest b1)"

definition Battery_PropertiesChanged :: "battery \<Rightarrow> string \<times> bag \<Rightarrow> battery \<times> effect list" where
  "Battery_PropertiesChanged b n =
     (if fst n \<noteq> ''org.bluez.Battery1'' then (b, [])
      else (let (b', tr) = Battery_loop (snd n) b in (b', tr @ [Emit_change])))"

definition Battery_properties :: "string list" where
  "Battery_properties = [''Percentage'', ''Source'']"

section \<open>What a notification carries for each field\<close>

text \<open>
  The static mapping from property names to fields, read off the \<^verbatim>\<open>case\<close> labels: a
  field whose property the map \<open>m\<close> binds takes the bound value, every other field
  keeps its own. \<open>latest\<close> is for a plain field, \<open>latest_opt\<close> for a nullable one.
\<close>

fun latest :: "'a option \<Rightarrow> 'a \<Rightarrow> 'a" where
  "latest None old = old"
| "latest (Some v) old = v"

fun latest_opt :: "'a option \<Rightarrow> 'a option \<Rightarrow> 'a option" where
  "latest_opt None old = old"
| "latest_opt (Some v) old = Some v"

definition Adapter_patch :: "(string \<rightharpoonup> jsval) \<Rightarrow> adapter \<Rightarrow> adapter" where
  "Adapter_patch m a =
     \<lparr> a_path = a_path a,
       a_address = latest (m ''Address'') (a_address a),
       a_name = latest (m ''Name'') (a_name a),
       a_alias = latest (m ''Alias'') (a_alias a),
       a_class = latest (m ''Class'') (a_class a),
       a_powered = latest (m ''Powered'') (a_powered a),
       a_discoverable = latest (m ''Discoverable'') (a_discoverable a),
       a_pairable = latest (m ''Pairable'') (a_pairable a),
       a_pairableTimeout = latest (m ''PairableTimeout'') (a_pairableTimeout a),
       a_discoverableTimeout = latest (m ''DiscoverableTimeout'') (a_discoverableTimeout a),
       a_discovering = latest (m ''Discovering'') (a_discovering a),
       a_uuids = latest (m ''UUIDs'') (a_uuids a),
       a_modalias = latest_opt (m ''Modalias'') (a_modalias a) \<rparr>"

text \<open>The adapter a bound \<^verbatim>\<open>Adapter\<close> path resolves to, if the lookup succeeds.\<close>

fun looked_up :: "(jsval \<Rightarrow> error + adapter) \<Rightarrow> jsval option \<Rightarrow> adapter option" where
  "looked_up fromPath None = None"
| "looked_up fromPath (Some v) = (case fromPath v of Inl e \<Rightarrow> None | Inr adapter \<Rightarrow> Some adapter)"

definition Device_patch ::
  "(jsval \<Rightarrow> error + adapter) \<Rightarrow> (string \<rightharpoonup> jsval) \<Rightarrow> device \<Rightarrow> device" where
  "Device_patch fromPath m d =
     \<lparr> d_path = d_path d,
       d_name = latest_opt (m ''Name'') (d_name d),
       d_icon = latest_opt (m ''Icon'') (d_icon d),
       d_class = latest_opt (m ''Class'') (d_class d),
       d_appearance = latest_opt (m ''Appearance'') (d_appearance d),
       d_uuids = latest_opt (m ''UUIDs'') (d_uuids d),
       d_paired = latest (m ''Paired'') (d_paired d),
       d_connected = latest (m ''Connected'') (d_connected d),
       d_trusted = latest (m ''Trusted'') (d_trusted d),
       d_blocked = latest (m ''Blocked'') (d_blocked d),
       d_alias = latest (m ''Alias'') (d_alias d),
       d_adapter = latest_opt (looked_up fromPath (m ''Adapter'')) (d_adapter d),
       d_legacyPairing = latest (m ''LegacyPairing'') (d_legacyPairing d),
       d_modalias = latest_opt (m ''Modalias'') (d_modalias d),
       d_rssi = latest_opt (m ''RSSI'') (d_rssi d),
       d_txPower = latest_opt (m ''TxPower'') (d_txPower d),
       d_manufacturerData = latest_opt (m ''ManufacturerData'') (d_manufacturerData d),
       d_serviceData = latest_opt (m ''ServiceData'') (d_serviceData d),
       d_gattServices = latest_opt (m ''GattServices'') (d_gattServices d) \<rparr>"

definition Battery_patch :: "(string \<rightharpoonup> jsval) \<Rightarrow> battery \<Rightarrow> battery" where
  "Battery_patch m b =
     \<lparr> b_path = b_path b,
       b_percentage = latest (m ''Percentage'') (b_percentage b),
       b_source = latest_opt (m ''Source'') (b_source b) \<rparr>"

text \<open>No lookup that the notification \<open>xs\<close> makes a device start is rejected.\<close>

definition lookups_succeed :: "(jsval \<Rightarrow> error + adapter) \<Rightarrow> bag \<Rightarrow> bool" where
  "lookups_succeed fromPath xs =
     list_all (\<lambda>p. fst p \<noteq> ''Adapter'' \<or> looked_up fromPath (Some (snd p)) \<noteq> None) xs"

text \<open>The properties the two \<^verbatim>\<open>fromDBusObject\<close> read without \<^verbatim>\<open>?.\<close>.\<close>

definition Adapter_required :: "string list" where
  "Adapter_required =
     [''Address'', ''Name'', ''Alias'', ''Class'', ''Powered'', ''Discoverable'', ''Pairable'',
      ''PairableTimeout'', ''DiscoverableTimeout'', ''Discovering'', ''UUIDs'']"

definition Device_required :: "string list" where
  "Device_required =
     [''Paired'', ''Connected'', ''Trusted'', ''Blocked'', ''Alias'', ''Adapter'',
      ''LegacyPairing'']"

section \<open>Sample objects\<close>

definition hci0 :: adapter where
  "hci0 =
     \<lparr> a_path = ''/org/bluez/hci0'',
       a_address = JStr ''00:1A:7D:DA:71:13'',
       a_name = JStr ''desk'',
       a_alias = JStr ''desk'',
       a_class = JNum 0,
       a_powered = JBool False,
       a_discoverable = JBool False,
       a_pairable = JBool True,
       a_pairableTimeout = JNum 0,
       a_discoverableTimeout = JNum 180,
       a_discovering = JBool False,
       a_uuids = JArr [],
       a_modalias = None \<rparr>"

definition hci0_props :: bag where
  "hci0_props =
     [(''Address'', JStr ''00:1A:7D:DA:71:13''), (''Name'', JStr ''desk''),
      (''Alias'', JStr ''desk''), (''Class'', JNum 0), (''Powered'', JBool False),
      (''Discoverable'', JBool False), (''Pairable'', JBool True),
      (''PairableTimeout'', JNum 0), (''DiscoverableTimeout'', JNum 180),
      (''Discovering'', JBool False), (''UUIDs'', JArr [])]"

definition hci1 :: adapter where
  "hci1 = hci0\<lparr>a_path := ''/org/bluez/hci1''\<rparr>"

definition headset_props :: bag where
  "headset_props =
     [(''Paired'', JBool True), (''Connected'', JBool False), (''Trusted'', JBool False),
      (''Blocked'', JBool False), (''Alias'', JStr ''Headset''),
      (''Adapter'', JStr ''/org/bluez/hci0''), (''LegacyPairing'', JBool False),
      (''Name'', JStr ''WH-1000'')]"

definition headset :: device where
  "headset =
     \<lparr> d_path = ''/org/bluez/hci0/dev_AA'',
       d_name = Some (JStr ''WH-1000''),
       d_icon = None,
       d_class = None,
       d_appearance = None,
       d_uuids = None,
       d_paired = JBool True,
       d_connected = JBool False,
       d_trusted = JBool False,
       d_blocked = JBool False,
       d_alias = JStr ''Headset'',
       d_adapter = None,
       d_legacyPairing = JBool False,
       d_modalias = None,
       d_rssi = None,
       d_txPower = None,
       d_manufacturerData = None,
       d_serviceData = None,
       d_gattServices = None \<rparr>"

definition cell :: battery where
  "cell = \<lparr> b_path = ''/org/bluez/hci0/dev_AA'', b_percentage = JNum 80, b_source = None \<rparr>"

text \<open>A lookup that finds the adapter at \<^verbatim>\<open>/org/bluez/hci0\<close> and nothing else.\<close>

definition only_hci0 :: "jsval \<Rightarrow> error + adapter" where
  "only_hci0 v =
     (if v = JStr ''/org/bluez/hci0'' then Inr hci0 else Inl (DBusError ''no such adapter''))"

text \<open>
  A service with a headset without a battery and a speaker with one below
  \<^verbatim>\<open>/org/bluez/hci0\<close>, and a mouse below \<^verbatim>\<open>/org/bluez/hci10\<close>; it refuses every
  property write.
\<close>

definition two_digit_props :: bag where
  "two_digit_props =
     [(''Paired'', JBool False), (''Connected'', JBool False), (''Trusted'', JBool False),
      (''Blocked'', JBool False), (''Alias'', JStr ''Mouse''),
      (''Adapter'', JStr ''/org/bluez/hci10''), (''LegacyPairing'', JBool False)]"

definition service :: bus where
  "service =
     \<lparr> GetManagedObjects =
         Inr [(''/org/bluez/hci0/dev_AA'', [(''org.bluez.Device1'', headset_props)]),
              (''/org/bluez/hci0/dev_BB'',
                 [(''org.bluez.Device1'', headset_props),
                  (''org.bluez.Battery1'', [(''Percentage'', JNum 80)])]),
              (''/org/bluez/hci10/dev_X'', [(''org.bluez.Device1'', two_digit_props)])],
       Get = (\<lambda>path iface name.
         if path = ''/org/bluez/hci0/dev_BB'' \<and> iface = ''org.bluez.Battery1''
            \<and> name = ''Percentage'' then Inr (JNum 80)
         else if path = ''/org/bluez/hci0/dev_BB'' \<and> iface = ''org.bluez.Battery1''
            \<and> name = ''Source'' then Inr (JStr ''HFP'')
         else Inl (DBusError ''no such property'')),
       Set = (\<lambda>path iface name signature v. Inl (DBusError ''not permitted'')) \<rparr>"

section \<open>Effects and the field mapping\<close>

lemma emitted_simps [simp]:
  "emitted [] = 0"
  "emitted (Emit_change # tr) = Suc (emitted tr)"
  "emitted (Warn w # tr) = emitted tr"
  by (simp_all add: emitted_def)

lemma emitted_append [simp]: "emitted (tr @ tr') = emitted tr + emitted tr'"
  by (simp add: emitted_def)

lemma warned_append [simp]: "warned (tr @ tr') = warned tr @ warned tr'"
  by (induction tr rule: warned.induct) simp_all

lemma latest_add: "latest (m1 k) (latest (m k) x) = latest ((m ++ m1) k) x"
  by (cases "m1 k") (simp_all add: map_add_def)

lemma latest_opt_add: "latest_opt (m1 k) (latest_opt (m k) x) = latest_opt ((m ++ m1) k) x"
  by (cases "m1 k") (simp_all add: map_add_def)

section \<open>The adapter's handler\<close>

lemma Adapter_switch_None: "Adapter_switch k v a = None \<longleftrightarrow> k \<notin> set Adapter_properties"
  by (simp add: Adapter_switch_def Adapter_properties_def)

lemma Adapter_loop_emitted:
  "emitted (snd (Adapter_loop xs a)) = length (filter (\<lambda>p. fst p \<in> set Adapter_properties) xs)"
proof (induction xs arbitrary: a)
  case Nil
  show ?case by simp
next
  case (Cons x xs)
  obtain k v where x: "x = (k, v)" by (cases x)
  show ?case
  proof (cases "Adapter_switch k v a")
    case None
    then have "k \<notin> set Adapter_properties" by (simp add: Adapter_switch_None)
    with None Cons.IH [of a] show ?thesis by (simp add: x split_beta)
  next
    case (Some a1)
    then have "k \<in> set Adapter_properties" using Adapter_switch_None [of k v a] by simp
    with Some Cons.IH [of a1] show ?thesis by (simp add: x split_beta)
  qed
qed

lemma Adapter_loop_warned:
  "warned (snd (Adapter_loop xs a)) =
     map (\<lambda>p. ''bluen: Adapter: Unhandled property change: '' @ fst p)
       (filter (\<lambda>p. fst p \<notin> set Adapter_properties) xs)"
proof (induction xs arbitrary: a)
  case Nil
  show ?case by simp
next
  case (Cons x xs)
  obtain k v where x: "x = (k, v)" by (cases x)
  show ?case
  proof (cases "Adapter_switch k v a")
    case None
    then have "k \<notin> set Adapter_properties" by (simp add: Adapter_switch_None)
    with None Cons.IH [of a] show ?thesis by (simp add: x split_beta)
  next
    case (Some a1)
    then have "k \<in> set Adapter_properties" using Adapter_switch_None [of k v a] by simp
    with Some Cons.IH [of a1] show ?thesis by (simp add: x split_beta)
  qed
qed

lemma Adapter_loop_filter:
  "fst (Adapter_loop (filter (\<lambda>p. fst p \<in> set Adapter_properties) xs) a) = fst (Adapter_loop xs a)"
proof (induction xs arbitrary: a)
  case Nil
  show ?case by simp
next
  case (Cons x xs)
  obtain k v where x: "x = (k, v)" by (cases x)
  show ?case
  proof (cases "Adapter_switch k v a")
    case None
    then have "k \<notin> set Adapter_properties" by (simp add: Adapter_switch_None)
    with None Cons.IH [of a] show ?thesis by (simp add: x split_beta)
  next
    case (Some a1)
    then have "k \<in> set Adapter_properties" using Adapter_switch_None [of k v a] by simp
    with Some Cons.IH [of a1] show ?thesis by (simp add: x split_beta)
  qed
qed

lemma Adapter_switch_patch:
  assumes "Adapter_switch k v a = Some a1" and "m k = None"
  shows "Adapter_patch m a1 = Adapter_patch (m(k \<mapsto> v)) a"
  using assms
  by (intro adapter.equality)
     (auto simp: Adapter_switch_def Adapter_patch_def split: if_splits)

lemma Adapter_switch_patch_None:
  assumes "Adapter_switch k v a = None"
  shows "Adapter_patch (m(k \<mapsto> v)) a = Adapter_patch m a"
  using assms unfolding Adapter_switch_None
  by (intro adapter.equality)
     (clarsimp simp: Adapter_patch_def Adapter_properties_def)+

lemma Adapter_patch_patch:
  "Adapter_patch m1 (Adapter_patch m a) = Adapter_patch (m ++ m1) a"
  by (simp add: Adapter_patch_def latest_add latest_opt_add)

lemma Adapter_loop_patch:
  "distinct (map fst xs) \<Longrightarrow> fst (Adapter_loop xs a) = Adapter_patch (map_of xs) a"
proof (induction xs arbitrary: a)
  case Nil
  show ?case by (simp add: Adapter_patch_def)
next
  case (Cons x xs)
  obtain k v where x: "x = (k, v)" by (cases x)
  from Cons.prems have d: "distinct (map fst xs)" and fresh: "map_of xs k = None"
    by (auto simp: x map_of_eq_None_iff)
  have m: "map_of (x # xs) = (map_of xs)(k \<mapsto> v)" by (simp add: x)
  show ?case
  proof (cases "Adapter_switch k v a")
    case None
    have "fst (Adapter_loop (x # xs) a) = fst (Adapter_loop xs a)"
      using None by (simp add: x split_beta)
    also have "\<dots> = Adapter_patch (map_of xs) a" by (rule Cons.IH [OF d])
    also have "\<dots> = Adapter_patch (map_of (x # xs)) a"
      unfolding m by (rule Adapter_switch_patch_None [of k v a "map_of xs", OF None, symmetric])
    finally show ?thesis .
  next
    case (Some a1)
    have "fst (Adapter_loop (x # xs) a) = fst (Adapter_loop xs a1)"
      using Some by (simp add: x split_beta)
    also have "\<dots> = Adapter_patch (map_of xs) a1" by (rule Cons.IH [OF d])
    also have "\<dots> = Adapter_patch (map_of (x # xs)) a"
      unfolding m by (rule Adapter_switch_patch [of k v a a1 "map_of xs", OF Some fresh])
    finally show ?thesis .
  qed
qed

section \<open>The battery's handler\<close>

lemma Battery_switch_None: "Battery_switch k v b = None \<longleftrightarrow> k \<notin> set Battery_properties"
  by (simp add: Battery_switch_def Battery_properties_def)

lemma Battery_loop_emitted: "emitted (snd (Battery_loop xs b)) = 0"
proof (induction xs arbitrary: b)
  case Nil
  show ?case by simp
next
  case (Cons x xs)
  obtain k v where x: "x = (k, v)" by (cases x)
  show ?case using Cons.IH
    by (cases "Battery_switch k v b") (simp_all add: x split_beta)
qed

lemma Battery_loop_warned:
  "warned (snd (Battery_loop xs b)) =
     map (\<lambda>p. ''bluen: Battery: Unhandled property change: '' @ fst p)
       (filter (\<lambda>p. fst p \<notin> set Battery_properties) xs)"
proof (induction xs arbitrary: b)
  case Nil
  show ?case by simp
next
  case (Cons x xs)
  obtain k v where x: "x = (k, v)" by (cases x)
  show ?case
  proof (cases "Battery_switch k v b")
    case None
    then have "k \<notin> set Battery_properties" by (simp add: Battery_switch_None)
    with None Cons.IH [of b] show ?thesis by (simp add: x split_beta)
  next
    case (Some b1)
    then have "k \<in> set Battery_properties" using Battery_switch_None [of k v b] by simp
    with Some Cons.IH [of b1] show ?thesis by (simp add: x split_beta)
  qed
qed

lemma Battery_loop_filter:
  "fst (Battery_loop (filter (\<lambda>p. fst p \<in> set Battery_properties) xs) b) = fst (Battery_loop xs b)"
proof (induction xs arbitrary: b)
  case Nil
  show ?case by simp
next
  case (Cons x xs)
  obtain k v where x: "x = (k, v)" by (cases x)
  show ?case
  proof (cases "Battery_switch k v b")
    case None
    then have "k \<notin> set Battery_properties" by (simp add: Battery_switch_None)
    with None Cons.IH [of b] show ?thesis by (simp add: x split_beta)
  next
    case (Some b1)
    then have "k \<in> set Battery_properties" using Battery_switch_None [of k v b] by simp
    with Some Cons.IH [of b1] show ?thesis by (simp add: x split_beta)
  qed
qed

lemma Battery_loop_unknown:
  "list_all (\<lambda>p. fst p \<notin> set Battery_properties) xs \<Longrightarrow> fst (Battery_loop xs b) = b"
proof (induction xs)
  case Nil
  show ?case by simp
next
  case (Cons x xs)
  obtain k v where x: "x = (k, v)" by (cases x)
  from Cons.prems have "Battery_switch k v b = None" by (simp add: x Battery_switch_None)
  with Cons show ?case by (simp add: x split_beta)
qed

lemma Battery_switch_patch:
  assumes "Battery_switch k v b = Some b1" and "m k = None"
  shows "Battery_patch m b1 = Battery_patch (m(k \<mapsto> v)) b"
  using assms
  by (intro battery.equality)
     (auto simp: Battery_switch_def Battery_patch_def split: if_splits)

lemma Battery_switch_patch_None:
  assumes "Battery_switch k v b = None"
  shows "Battery_patch (m(k \<mapsto> v)) b = Battery_patch m b"
  using assms unfolding Battery_switch_None
  by (intro battery.equality)
     (clarsimp simp: Battery_patch_def Battery_properties_def)+

lemma Battery_patch_patch:
  "Battery_patch m1 (Battery_patch m b) = Battery_patch (m ++ m1) b"
  by (simp add: Battery_patch_def latest_add latest_opt_add)

lemma Battery_loop_patch:
  "distinct (map fst xs) \<Longrightarrow> fst (Battery_loop xs b) = Battery_patch (map_of xs) b"
proof (induction xs arbitrary: b)
  case Nil
  show ?case by (simp add: Battery_patch_def)
next
  case (Cons x xs)
  obtain k v where x: "x = (k, v)" by (cases x)
  from Cons.prems have d: "distinct (map fst xs)" and fresh: "map_of xs k = None"
    by (auto simp: x map_of_eq_None_iff)
  have m: "map_of (x # xs) = (map_of xs)(k \<mapsto> v)" by (simp add: x)
  show ?case
  proof (cases "Battery_switch k v b")
    case None
    have "fst (Battery_loop (x # xs) b) = fst (Battery_loop xs b)"
      using None by (simp add: x split_beta)
    also have "\<dots> = Battery_patch (map_of xs) b" by (rule Cons.IH [OF d])
    also have "\<dots> = Battery_patch (map_of (x # xs)) b"
      unfolding m by (rule Battery_switch_patch_None [of k v b "map_of xs", OF None, symmetric])
    finally show ?thesis .
  next
    case (Some b1)
    have "fst (Battery_loop (x # xs) b) = fst (Battery_loop xs b1)"
      using Some by (simp add: x split_beta)
    also have "\<dots> = Battery_patch (map_of xs) b1" by (rule Cons.IH [OF d])
    also have "\<dots> = Battery_patch (map_of (x # xs)) b"
      unfolding m by (rule Battery_switch_patch [of k v b b1 "map_of xs", OF Some fresh])
    finally show ?thesis .
  qed
qed

section \<open>The device's handler\<close>

lemma Device_switch_unknown:
  "Device_switch f k v d = Inr None \<longleftrightarrow> k \<notin> set Device_properties"
  by (simp add: Device_switch_def Device_properties_def split: sum.splits)

lemma Device_switch_rejected:
  "Device_switch f k v d = Inl e \<longleftrightarrow> k = ''Adapter'' \<and> f v = Inl e"
  by (simp add: Device_switch_def split: sum.splits)

lemma Device_switch_assigned:
  "Device_switch f k v d = Inr (Some d1) \<Longrightarrow> k \<in> set Device_properties"
  using Device_switch_unknown [of f k v d] by auto

lemma Device_loop_filter:
  "fst (Device_loop f (filter (\<lambda>p. fst p \<in> set Device_properties) xs) d) = fst (Device_loop f xs d)
   \<and> snd (snd (Device_loop f (filter (\<lambda>p. fst p \<in> set Device_properties) xs) d))
       = snd (snd (Device_loop f xs d))
   \<and> emitted (fst (snd (Device_loop f (filter (\<lambda>p. fst p \<in> set Device_properties) xs) d)))
       = emitted (fst (snd (Device_loop f xs d)))"
proof (induction xs arbitrary: d)
  case Nil
  show ?case by simp
next
  case (Cons x xs)
  obtain k v where x: "x = (k, v)" by (cases x)
  show ?case
  proof (cases "Device_switch f k v d")
    case (Inl e)
    then have "k \<in> set Device_properties"
      by (simp add: Device_switch_rejected Device_properties_def)
    with Inl show ?thesis by (simp add: x)
  next
    case (Inr r)
    show ?thesis
    proof (cases r)
      case None
      with Inr have "k \<notin> set Device_properties" by (simp add: Device_switch_unknown)
      with Inr None Cons.IH [of d] show ?thesis by (simp add: x split_beta)
    next
      case (Some d1)
      with Inr have "k \<in> set Device_properties" by (simp add: Device_switch_assigned)
      with Inr Some Cons.IH [of d1] show ?thesis by (simp add: x split_beta)
    qed
  qed
qed

lemma Device_loop_completed:
  "snd (snd (Device_loop f xs d)) = None \<Longrightarrow>
     emitted (fst (snd (Device_loop f xs d)))
       = length (filter (\<lambda>p. fst p \<in> set Device_properties) xs)
     \<and> warned (fst (snd (Device_loop f xs d)))
       = map (\<lambda>p. ''bluen: Device: Unhandled property change: '' @ fst p)
           (filter (\<lambda>p. fst p \<notin> set Device_properties) xs)"
proof (induction xs arbitrary: d)
  case Nil
  show ?case by simp
next
  case (Cons x xs)
  obtain k v where x: "x = (k, v)" by (cases x)
  show ?case
  proof (cases "Device_switch f k v d")
    case (Inl e)
    with Cons.prems show ?thesis by (simp add: x)
  next
    case (Inr r)
    show ?thesis
    proof (cases r)
      case None
      with Inr have k: "k \<notin> set Device_properties" by (simp add: Device_switch_unknown)
      from Cons.prems Inr None have "snd (snd (Device_loop f xs d)) = None"
        by (simp add: x split_beta)
      from Cons.IH [OF this] Inr None k show ?thesis by (simp add: x split_beta)
    next
      case (Some d1)
      with Inr have k: "k \<in> set Device_properties" by (simp add: Device_switch_assigned)
      from Cons.prems Inr Some have "snd (snd (Device_loop f xs d1)) = None"
        by (simp add: x split_beta)
      from Cons.IH [OF this] Inr Some k show ?thesis by (simp add: x split_beta)
    qed
  qed
qed

lemma Device_switch_patch:
  assumes "Device_switch f k v d = Inr (Some d1)" and "m k = None"
  shows "Device_patch f m d1 = Device_patch f (m(k \<mapsto> v)) d"
  using assms
  by (intro device.equality)
     (auto simp: Device_switch_def Device_patch_def split: if_splits sum.splits)

lemma Device_switch_patch_None:
  assumes "Device_switch f k v d = Inr None"
  shows "Device_patch f (m(k \<mapsto> v)) d = Device_patch f m d"
  using assms unfolding Device_switch_unknown
  by (intro device.equality)
     (clarsimp simp: Device_patch_def Device_properties_def)+

lemma looked_up_add:
  assumes "m1 ''Adapter'' = None \<or> looked_up f (m1 ''Adapter'') \<noteq> None"
  shows "latest_opt (looked_up f (m1 ''Adapter'')) (latest_opt (looked_up f (m ''Adapter'')) x)
           = latest_opt (looked_up f ((m ++ m1) ''Adapter'')) x"
proof (cases "m1 ''Adapter''")
  case None
  then show ?thesis by (simp add: map_add_def)
next
  case (Some v)
  with assms obtain ad where "looked_up f (Some v) = Some ad" by auto
  with Some show ?thesis by (simp add: map_add_def del: looked_up.simps)
qed

lemma Device_patch_patch:
  assumes "m1 ''Adapter'' = None \<or> looked_up f (m1 ''Adapter'') \<noteq> None"
  shows "Device_patch f m1 (Device_patch f m d) = Device_patch f (m ++ m1) d"
  by (simp add: Device_patch_def latest_add latest_opt_add looked_up_add [of m1 f, OF assms]
        del: looked_up.simps)

lemma Device_loop_patch:
  "distinct (map fst xs) \<Longrightarrow> lookups_succeed f xs \<Longrightarrow>
     fst (Device_loop f xs d) = Device_patch f (map_of xs) d
     \<and> snd (snd (Device_loop f xs d)) = None"
proof (induction xs arbitrary: d)
  case Nil
  show ?case by (simp add: Device_patch_def)
next
  case (Cons x xs)
  obtain k v where x: "x = (k, v)" by (cases x)
  from Cons.prems have d: "distinct (map fst xs)" and fresh: "map_of xs k = None"
    by (auto simp: x map_of_eq_None_iff)
  from Cons.prems have ok: "lookups_succeed f xs"
    and here: "k \<noteq> ''Adapter'' \<or> looked_up f (Some v) \<noteq> None"
    by (simp_all add: lookups_succeed_def x del: looked_up.simps)
  have m: "map_of (x # xs) = (map_of xs)(k \<mapsto> v)" by (simp add: x)
  show ?case
  proof (cases "Device_switch f k v d")
    case (Inl e)
    with here show ?thesis by (auto simp: Device_switch_rejected)
  next
    case (Inr r)
    show ?thesis
    proof (cases r)
      case None
      with Inr have sw: "Device_switch f k v d = Inr None" by simp
      have L: "fst (Device_loop f (x # xs) d) = fst (Device_loop f xs d)"
        and R: "snd (snd (Device_loop f (x # xs) d)) = snd (snd (Device_loop f xs d))"
        using sw by (simp_all add: x split_beta)
      have P: "Device_patch f (map_of xs) d = Device_patch f (map_of (x # xs)) d"
        unfolding m by (rule Device_switch_patch_None [of f k v d "map_of xs", OF sw, symmetric])
      from Cons.IH [OF d ok, of d] have "fst (Device_loop f xs d) = Device_patch f (map_of xs) d"
        and "snd (snd (Device_loop f xs d)) = None" by blast+
      then show ?thesis unfolding L R P by blast
    next
      case (Some d1)
      with Inr have sw: "Device_switch f k v d = Inr (Some d1)" by simp
      have L: "fst (Device_loop f (x # xs) d) = fst (Device_loop f xs d1)"
        and R: "snd (snd (Device_loop f (x # xs) d)) = snd (snd (Device_loop f xs d1))"
        using sw by (simp_all add: x split_beta)
      have P: "Device_patch f (map_of xs) d1 = Device_patch f (map_of (x # xs)) d"
        unfolding m by (rule Device_switch_patch [of f k v d d1 "map_of xs", OF sw fresh])
      from Cons.IH [OF d ok, of d1] have "fst (Device_loop f xs d1) = Device_patch f (map_of xs) d1"
        and "snd (snd (Device_loop f xs d1)) = None" by blast+
      then show ?thesis unfolding L R P by blast
    qed
  qed
qed

section \<open>Notifications\<close>

text \<open>
  C2. A notification whose interface name is not the entity's own leaves every field of
  an adapter, a device or a battery as it was and emits no \<^verbatim>\<open>change\<close> event (nor
  anything else).
\<close>

theorem other_interface_ignored:
  "(iface \<noteq> ''org.bluez.Adapter1'' \<longrightarrow> Adapter_PropertiesChanged a (iface, changed) = (a, []))
   \<and> (iface \<noteq> ''org.bluez.Device1'' \<longrightarrow>
        Device_PropertiesChanged f d (iface, changed) = (d, [], None))
   \<and> (iface \<noteq> ''org.bluez.Battery1'' \<longrightarrow> Battery_PropertiesChanged b (iface, changed) = (b, []))"
  by (simp add: Adapter_PropertiesChanged_def Device_PropertiesChanged_def
        Battery_PropertiesChanged_def)

theorem other_interface_ignored_witness:
  "''org.bluez.GattService1'' \<noteq> ''org.bluez.Adapter1''
   \<and> Adapter_PropertiesChanged hci0 (''org.bluez.GattService1'', [(''Powered'', JBool True)])
       = (hci0, [])
   \<and> ''org.bluez.GattService1'' \<noteq> ''org.bluez.Device1''
   \<and> Device_PropertiesChanged only_hci0 headset
         (''org.bluez.GattService1'', [(''Powered'', JBool True)]) = (headset, [], None)
   \<and> ''org.bluez.GattService1'' \<noteq> ''org.bluez.Battery1''
   \<and> Battery_PropertiesChanged cell (''org.bluez.GattService1'', [(''Powered'', JBool True)])
       = (cell, [])"
  using other_interface_ignored
    [of "''org.bluez.GattService1''" hci0 "[(''Powered'', JBool True)]" only_hci0 headset cell]
  by simp

text \<open>
  C10. A notification for the battery interface makes a battery emit exactly one
  \<^verbatim>\<open>change\<close> event, whatever it carries; when none of its property names is
  recognised, no field has changed and the event is emitted all the same.
\<close>

theorem battery_always_emits_once:
  "emitted (snd (Battery_PropertiesChanged b (''org.bluez.Battery1'', props))) = 1
   \<and> (list_all (\<lambda>p. fst p \<notin> set Battery_properties) props \<longrightarrow>
        fst (Battery_PropertiesChanged b (''org.bluez.Battery1'', props)) = b)"
  by (simp add: Battery_PropertiesChanged_def split_beta Battery_loop_emitted
        Battery_loop_unknown)

theorem battery_always_emits_once_witness:
  "emitted (snd (Battery_PropertiesChanged cell (''org.bluez.Battery1'', [(''Level'', JNum 3)]))) = 1
   \<and> list_all (\<lambda>p. fst p \<notin> set Battery_properties) [(''Level'', JNum 3)]
   \<and> fst (Battery_PropertiesChanged cell (''org.bluez.Battery1'', [(''Level'', JNum 3)])) = cell"
  using battery_always_emits_once [of cell "[(''Level'', JNum 3)]"]
  by (simp add: Battery_properties_def)

text \<open>
  C1, as the code has it. For a notification of the entity's own interface, an adapter
  and a device emit one \<^verbatim>\<open>change\<close> event for each pair whose property name is
  recognised (a device when its handler is not rejected), hence none when no field is
  assigned and several when several are; a battery emits exactly one when at least one
  of the names is recognised.
\<close>

theorem change_events_of_a_notification:
  "emitted (snd (Adapter_PropertiesChanged a (''org.bluez.Adapter1'', changed)))
     = length (filter (\<lambda>p. fst p \<in> set Adapter_properties) changed)
   \<and> (snd (snd (Device_PropertiesChanged f d (''org.bluez.Device1'', props))) = None \<longrightarrow>
        emitted (fst (snd (Device_PropertiesChanged f d (''org.bluez.Device1'', props))))
          = length (filter (\<lambda>p. fst p \<in> set Device_properties) props))
   \<and> (list_ex (\<lambda>p. fst p \<in> set Battery_properties) bprops \<longrightarrow>
        emitted (snd (Battery_PropertiesChanged b (''org.bluez.Battery1'', bprops))) = 1)"
  by (simp add: Adapter_PropertiesChanged_def Device_PropertiesChanged_def
        Battery_PropertiesChanged_def split_beta Adapter_loop_emitted Battery_loop_emitted
        Device_loop_completed)

theorem change_events_of_a_notification_witness:
  "emitted (snd (Adapter_PropertiesChanged hci0
       (''org.bluez.Adapter1'', [(''Powered'', JBool True), (''Vendor'', JNum 1),
          (''Alias'', JStr ''den'')]))) = 2
   \<and> snd (snd (Device_PropertiesChanged only_hci0 headset
       (''org.bluez.Device1'', [(''Adapter'', JStr ''/org/bluez/hci0''), (''RSSI'', JNum (- 60))])))
       = None
   \<and> emitted (fst (snd (Device_PropertiesChanged only_hci0 headset
       (''org.bluez.Device1'', [(''Adapter'', JStr ''/org/bluez/hci0''), (''RSSI'', JNum (- 60))]))))
       = 2
   \<and> list_ex (\<lambda>p. fst p \<in> set Battery_properties) [(''Percentage'', JNum 55)]
   \<and> emitted (snd (Battery_PropertiesChanged cell
       (''org.bluez.Battery1'', [(''Percentage'', JNum 55)]))) = 1"
  using change_events_of_a_notification
    [of hci0 "[(''Powered'', JBool True), (''Vendor'', JNum 1), (''Alias'', JStr ''den'')]"
        only_hci0 headset "[(''Adapter'', JStr ''/org/bluez/hci0''), (''RSSI'', JNum (- 60))]"
        "[(''Percentage'', JNum 55)]" cell]
  by (simp add: Adapter_properties_def Device_properties_def Battery_properties_def
        Device_PropertiesChanged_def Device_switch_def only_hci0_def)

text \<open>
  C1 as stated fails: one notification that assigns two fields of an adapter emits two
  \<^verbatim>\<open>change\<close> events, not one.
\<close>

theorem one_event_per_notification_counterexample:
  "emitted (snd (Adapter_PropertiesChanged hci0
       (''org.bluez.Adapter1'', [(''Powered'', JBool True), (''Discoverable'', JBool True)]))) = 2"
  by (simp add: Adapter_PropertiesChanged_def Adapter_switch_def)

text \<open>
  C5, as the code has it. In a notification of the entity's own interface, a property
  name without a \<^verbatim>\<open>case\<close> label never ends the loop. For an adapter and a battery
  the warnings are exactly the unknown names, in order; the object ends as it would
  without the unknown pairs; and, the keys being distinct, every field whose property
  the notification names holds the notified value. For a device, the object and the
  outcome of the handler are those of the notification without the unknown pairs; when
  no adapter lookup is rejected, the warnings are exactly the unknown names and every
  field named holds the notified value.
\<close>

theorem unknown_properties_skipped:
  "warned (snd (Adapter_PropertiesChanged a (''org.bluez.Adapter1'', changed)))
     = map (\<lambda>p. ''bluen: Adapter: Unhandled property change: '' @ fst p)
         (filter (\<lambda>p. fst p \<notin> set Adapter_properties) changed)
   \<and> fst (Adapter_PropertiesChanged a (''org.bluez.Adapter1'', changed))
     = fst (Adapter_PropertiesChanged a
         (''org.bluez.Adapter1'', filter (\<lambda>p. fst p \<in> set Adapter_properties) changed))
   \<and> (distinct (map fst changed) \<longrightarrow>
        fst (Adapter_PropertiesChanged a (''org.bluez.Adapter1'', changed))
          = Adapter_patch (map_of changed) a)
   \<and> warned (snd (Battery_PropertiesChanged b (''org.bluez.Battery1'', bprops)))
     = map (\<lambda>p. ''bluen: Battery: Unhandled property change: '' @ fst p)
         (filter (\<lambda>p. fst p \<notin> set Battery_properties) bprops)
   \<and> fst (Battery_PropertiesChanged b (''org.bluez.Battery1'', bprops))
     = fst (Battery_PropertiesChanged b
         (''org.bluez.Battery1'', filter (\<lambda>p. fst p \<in> set Battery_properties) bprops))
   \<and> (distinct (map fst bprops) \<longrightarrow>
        fst (Battery_PropertiesChanged b (''org.bluez.Battery1'', bprops))
          = Battery_patch (map_of bprops) b)
   \<and> fst (Device_PropertiesChanged f d (''org.bluez.Device1'', props))
     = fst (Device_PropertiesChanged f d
         (''org.bluez.Device1'', filter (\<lambda>p. fst p \<in> set Device_properties) props))
   \<and> snd (snd (Device_PropertiesChanged f d (''org.bluez.Device1'', props)))
     = snd (snd (Device_PropertiesChanged f d
         (''org.bluez.Device1'', filter (\<lambda>p. fst p \<in> set Device_properties) props)))
   \<and> (snd (snd (Device_PropertiesChanged f d (''org.bluez.Device1'', props))) = None \<longrightarrow>
        warned (fst (snd (Device_PropertiesChanged f d (''org.bluez.Device1'', props))))
          = map (\<lambda>p. ''bluen: Device: Unhandled property change: '' @ fst p)
              (filter (\<lambda>p. fst p \<notin> set Device_properties) props))
   \<and> (distinct (map fst props) \<and> lookups_succeed f props \<longrightarrow>
        fst (Device_PropertiesChanged f d (''org.bluez.Device1'', props))
          = Device_patch f (map_of props) d)"
proof -
  have A: "fst (Adapter_loop changed a)
      = fst (Adapter_loop (filter (\<lambda>p. fst p \<in> set Adapter_properties) changed) a)"
    by (rule Adapter_loop_filter [symmetric])
  have B: "fst (Battery_loop bprops b)
      = fst (Battery_loop (filter (\<lambda>p. fst p \<in> set Battery_properties) bprops) b)"
    by (rule Battery_loop_filter [symmetric])
  have D: "fst (Device_loop f props d)
      = fst (Device_loop f (filter (\<lambda>p. fst p \<in> set Device_properties) props) d)"
    and D': "snd (snd (Device_loop f props d))
      = snd (snd (Device_loop f (filter (\<lambda>p. fst p \<in> set Device_properties) props) d))"
    using Device_loop_filter [of f props d] by simp_all
  show ?thesis
    unfolding Adapter_PropertiesChanged_def Battery_PropertiesChanged_def
      Device_PropertiesChanged_def
    by (intro conjI impI)
       (simp_all add: split_beta A [symmetric] B [symmetric] D [symmetric] D' [symmetric]
          Adapter_loop_warned Battery_loop_warned Adapter_loop_patch Battery_loop_patch
          Device_loop_completed Device_loop_patch)
qed

theorem unknown_properties_skipped_witness:
  "fst (Adapter_PropertiesChanged hci0
       (''org.bluez.Adapter1'', [(''Vendor'', JNum 1), (''Powered'', JBool True),
          (''Roles'', JArr []), (''Alias'', JStr ''den'')]))
     = hci0\<lparr>a_alias := JStr ''den'', a_powered := JBool True\<rparr>
   \<and> warned (snd (Adapter_PropertiesChanged hci0
       (''org.bluez.Adapter1'', [(''Vendor'', JNum 1), (''Powered'', JBool True),
          (''Roles'', JArr []), (''Alias'', JStr ''den'')])))
     = [''bluen: Adapter: Unhandled property change: Vendor'',
        ''bluen: Adapter: Unhandled property change: Roles'']
   \<and> fst (Battery_PropertiesChanged cell
       (''org.bluez.Battery1'', [(''Level'', JNum 3), (''Percentage'', JNum 55)]))
     = cell\<lparr>b_percentage := JNum 55\<rparr>
   \<and> warned (snd (Battery_PropertiesChanged cell
       (''org.bluez.Battery1'', [(''Level'', JNum 3), (''Percentage'', JNum 55)])))
     = [''bluen: Battery: Unhandled property change: Level'']
   \<and> lookups_succeed only_hci0
       [(''Bonded'', JBool True), (''Adapter'', JStr ''/org/bluez/hci0''), (''RSSI'', JNum (- 60))]
   \<and> Device_PropertiesChanged only_hci0 headset
       (''org.bluez.Device1'', [(''Bonded'', JBool True), (''Adapter'', JStr ''/org/bluez/hci0''),
          (''RSSI'', JNum (- 60))])
     = (headset\<lparr>d_adapter := Some hci0, d_rssi := Some (JNum (- 60))\<rparr>,
        [Warn ''bluen: Device: Unhandled property change: Bonded'', Emit_change, Emit_change],
        None)"
proof -
  note T = unknown_properties_skipped
    [of hci0 "[(''Vendor'', JNum 1), (''Powered'', JBool True), (''Roles'', JArr []),
          (''Alias'', JStr ''den'')]"
        cell "[(''Level'', JNum 3), (''Percentage'', JNum 55)]"
        only_hci0 headset
        "[(''Bonded'', JBool True), (''Adapter'', JStr ''/org/bluez/hci0''),
          (''RSSI'', JNum (- 60))]"]
  have 1: "fst (Adapter_PropertiesChanged hci0
       (''org.bluez.Adapter1'', [(''Vendor'', JNum 1), (''Powered'', JBool True),
          (''Roles'', JArr []), (''Alias'', JStr ''den'')]))
     = hci0\<lparr>a_alias := JStr ''den'', a_powered := JBool True\<rparr>"
    by (simp add: Adapter_PropertiesChanged_def Adapter_switch_def)
  from T have "warned (snd (Adapter_PropertiesChanged hci0
       (''org.bluez.Adapter1'', [(''Vendor'', JNum 1), (''Powered'', JBool True),
          (''Roles'', JArr []), (''Alias'', JStr ''den'')])))
     = map (\<lambda>p. ''bluen: Adapter: Unhandled property change: '' @ fst p)
         (filter (\<lambda>p. fst p \<notin> set Adapter_properties)
           [(''Vendor'', JNum 1), (''Powered'', JBool True), (''Roles'', JArr []),
            (''Alias'', JStr ''den'')])"
    by (rule conjunct1)
  then have 2: "warned (snd (Adapter_PropertiesChanged hci0
       (''org.bluez.Adapter1'', [(''Vendor'', JNum 1), (''Powered'', JBool True),
          (''Roles'', JArr []), (''Alias'', JStr ''den'')])))
     = [''bluen: Adapter: Unhandled property change: Vendor'',
        ''bluen: Adapter: Unhandled property change: Roles'']"
    by (simp add: Adapter_properties_def)
  have 3: "fst (Battery_PropertiesChanged cell
       (''org.bluez.Battery1'', [(''Level'', JNum 3), (''Percentage'', JNum 55)]))
     = cell\<lparr>b_percentage := JNum 55\<rparr>"
    by (simp add: Battery_PropertiesChanged_def Battery_switch_def)
  have 4: "warned (snd (Battery_PropertiesChanged cell
       (''org.bluez.Battery1'', [(''Level'', JNum 3), (''Percentage'', JNum 55)])))
     = [''bluen: Battery: Unhandled property change: Level'']"
    by (simp add: Battery_PropertiesChanged_def Battery_switch_def)
  have 5: "lookups_succeed only_hci0
       [(''Bonded'', JBool True), (''Adapter'', JStr ''/org/bluez/hci0''), (''RSSI'', JNum (- 60))]"
    by (simp add: lookups_succeed_def only_hci0_def)
  have 6: "Device_PropertiesChanged only_hci0 headset
       (''org.bluez.Device1'', [(''Bonded'', JBool True), (''Adapter'', JStr ''/org/bluez/hci0''),
          (''RSSI'', JNum (- 60))])
     = (headset\<lparr>d_adapter := Some hci0, d_rssi := Some (JNum (- 60))\<rparr>,
        [Warn ''bluen: Device: Unhandled property change: Bonded'', Emit_change, Emit_change],
        None)"
    by (simp add: Device_PropertiesChanged_def Device_switch_def only_hci0_def)
  from 1 2 3 4 5 6 show ?thesis by (intro conjI)
qed

text \<open>
  C5 as stated fails for a device: a rejected adapter lookup ends the handler, so the
  recognised \<^verbatim>\<open>Name\<close> after it is not assigned and the unknown \<^verbatim>\<open>Bonded\<close> after it
  is not logged.
\<close>

theorem unknown_properties_skipped_counterexample:
  "Device_PropertiesChanged only_hci0 headset
       (''org.bluez.Device1'', [(''Vendor'', JNum 1), (''Adapter'', JStr ''/org/bluez/hci7''),
          (''Name'', JStr ''Buds''), (''Bonded'', JBool True)])
     = (headset, [Warn ''bluen: Device: Unhandled property change: Vendor''],
        Some (DBusError ''no such adapter''))
   \<and> d_name headset = Some (JStr ''WH-1000'')"
  by (simp add: Device_PropertiesChanged_def Device_switch_def only_hci0_def headset_def)

lemma lookups_succeed_map_of:
  assumes "distinct (map fst xs)" and "lookups_succeed f xs"
  shows "map_of xs ''Adapter'' = None \<or> looked_up f (map_of xs ''Adapter'') \<noteq> None"
proof (cases "map_of xs ''Adapter''")
  case None
  then show ?thesis by simp
next
  case (Some v)
  then have "(''Adapter'', v) \<in> set xs" by (rule map_of_SomeD)
  with assms(2) have "looked_up f (Some v) \<noteq> None"
    unfolding lookups_succeed_def list_all_iff by fastforce
  with Some show ?thesis by simp
qed

lemma lookups_succeed_union:
  assumes u: "distinct (map fst u)" and eq: "map_of u = map_of n1 ++ map_of n2"
    and n1: "distinct (map fst n1)" "lookups_succeed f n1"
    and n2: "distinct (map fst n2)" "lookups_succeed f n2"
  shows "lookups_succeed f u"
  unfolding lookups_succeed_def list_all_iff
proof (intro ballI)
  fix p assume p: "p \<in> set u"
  show "fst p \<noteq> ''Adapter'' \<or> looked_up f (Some (snd p)) \<noteq> None"
  proof (cases "fst p = ''Adapter''")
    case False
    then show ?thesis by simp
  next
    case True
    with p u have "map_of u ''Adapter'' = Some (snd p)"
      by (metis map_of_is_SomeI prod.collapse)
    then have "(map_of n1 ++ map_of n2) ''Adapter'' = Some (snd p)" by (simp add: eq)
    then have "map_of n2 ''Adapter'' = Some (snd p)
        \<or> map_of n1 ''Adapter'' = Some (snd p)"
      by (auto simp: map_add_def split: option.splits)
    then show ?thesis
      using lookups_succeed_map_of [OF n1] lookups_succeed_map_of [OF n2]
      by (auto simp del: looked_up.simps)
  qed
qed

text \<open>
  C4, as the code has it. Let \<open>n1\<close> and \<open>n2\<close> be notifications of the entity's own
  interface and \<open>u\<close> their field-wise union in which the values of \<open>n2\<close> win (all three
  with distinct keys, as objects have). Handling \<open>n1\<close> and then \<open>n2\<close>, each handler
  running to its end before the next starts, leaves the fields of an adapter and of a
  battery as handling \<open>u\<close> alone does; and those of a device too, provided that no
  adapter lookup started by \<open>n1\<close> or \<open>n2\<close> is rejected.
\<close>

theorem last_write_wins:
  assumes "distinct (map fst n1)" and "distinct (map fst n2)" and "distinct (map fst u)"
    and "map_of u = map_of n1 ++ map_of n2"
  shows
    "fst (Adapter_PropertiesChanged
         (fst (Adapter_PropertiesChanged a (''org.bluez.Adapter1'', n1)))
         (''org.bluez.Adapter1'', n2))
       = fst (Adapter_PropertiesChanged a (''org.bluez.Adapter1'', u))
     \<and> fst (Battery_PropertiesChanged
         (fst (Battery_PropertiesChanged b (''org.bluez.Battery1'', n1)))
         (''org.bluez.Battery1'', n2))
       = fst (Battery_PropertiesChanged b (''org.bluez.Battery1'', u))
     \<and> (lookups_succeed f n1 \<and> lookups_succeed f n2 \<longrightarrow>
          fst (Device_PropertiesChanged f
              (fst (Device_PropertiesChanged f d (''org.bluez.Device1'', n1)))
              (''org.bluez.Device1'', n2))
            = fst (Device_PropertiesChanged f d (''org.bluez.Device1'', u)))"
proof (intro conjI impI)
  show "fst (Adapter_PropertiesChanged
         (fst (Adapter_PropertiesChanged a (''org.bluez.Adapter1'', n1)))
         (''org.bluez.Adapter1'', n2))
       = fst (Adapter_PropertiesChanged a (''org.bluez.Adapter1'', u))"
    using assms
    by (simp add: Adapter_PropertiesChanged_def Adapter_loop_patch Adapter_patch_patch)
next
  show "fst (Battery_PropertiesChanged
         (fst (Battery_PropertiesChanged b (''org.bluez.Battery1'', n1)))
         (''org.bluez.Battery1'', n2))
       = fst (Battery_PropertiesChanged b (''org.bluez.Battery1'', u))"
    using assms
    by (simp add: Battery_PropertiesChanged_def split_beta Battery_loop_patch
          Battery_patch_patch)
next
  assume ok: "lookups_succeed f n1 \<and> lookups_succeed f n2"
  then have ok1: "lookups_succeed f n1" and ok2: "lookups_succeed f n2" by simp_all
  have oku: "lookups_succeed f u"
    by (rule lookups_succeed_union [OF assms(3,4) assms(1) ok1 assms(2) ok2])
  have "fst (Device_loop f n2 (fst (Device_loop f n1 d)))
      = Device_patch f (map_of n2) (Device_patch f (map_of n1) d)"
    using Device_loop_patch [OF assms(1) ok1, of d]
      Device_loop_patch [OF assms(2) ok2, of "fst (Device_loop f n1 d)"]
    by simp
  also have "\<dots> = Device_patch f (map_of n1 ++ map_of n2) d"
    by (rule Device_patch_patch [of "map_of n2" f, OF lookups_succeed_map_of [OF assms(2) ok2]])
  also have "\<dots> = fst (Device_loop f u d)"
    using Device_loop_patch [OF assms(3) oku, of d] by (simp add: assms(4))
  finally show "fst (Device_PropertiesChanged f
              (fst (Device_PropertiesChanged f d (''org.bluez.Device1'', n1)))
              (''org.bluez.Device1'', n2))
            = fst (Device_PropertiesChanged f d (''org.bluez.Device1'', u))"
    by (simp add: Device_PropertiesChanged_def)
qed

theorem last_write_wins_witness:
  "distinct (map fst [(''Alias'', JStr ''den''), (''Adapter'', JStr ''/org/bluez/hci0''),
       (''Percentage'', JNum 55)])
   \<and> distinct (map fst [(''Alias'', JStr ''loft''), (''Source'', JStr ''HFP'')])
   \<and> distinct (map fst [(''Alias'', JStr ''loft''), (''Adapter'', JStr ''/org/bluez/hci0''),
       (''Percentage'', JNum 55), (''Source'', JStr ''HFP'')])
   \<and> map_of [(''Alias'', JStr ''loft''), (''Adapter'', JStr ''/org/bluez/hci0''),
       (''Percentage'', JNum 55), (''Source'', JStr ''HFP'')]
     = map_of [(''Alias'', JStr ''den''), (''Adapter'', JStr ''/org/bluez/hci0''),
         (''Percentage'', JNum 55)]
       ++ map_of [(''Alias'', JStr ''loft''), (''Source'', JStr ''HFP'')]
   \<and> lookups_succeed only_hci0 [(''Alias'', JStr ''den''), (''Adapter'', JStr ''/org/bluez/hci0''),
       (''Percentage'', JNum 55)]
   \<and> lookups_succeed only_hci0 [(''Alias'', JStr ''loft''), (''Source'', JStr ''HFP'')]
   \<and> fst (Adapter_PropertiesChanged
       (fst (Adapter_PropertiesChanged hci0
          (''org.bluez.Adapter1'', [(''Alias'', JStr ''den''),
             (''Adapter'', JStr ''/org/bluez/hci0''), (''Percentage'', JNum 55)])))
       (''org.bluez.Adapter1'', [(''Alias'', JStr ''loft''), (''Source'', JStr ''HFP'')]))
     = hci0\<lparr>a_alias := JStr ''loft''\<rparr>
   \<and> fst (Battery_PropertiesChanged
       (fst (Battery_PropertiesChanged cell
          (''org.bluez.Battery1'', [(''Alias'', JStr ''den''),
             (''Adapter'', JStr ''/org/bluez/hci0''), (''Percentage'', JNum 55)])))
       (''org.bluez.Battery1'', [(''Alias'', JStr ''loft''), (''Source'', JStr ''HFP'')]))
     = cell\<lparr>b_percentage := JNum 55, b_source := Some (JStr ''HFP'')\<rparr>
   \<and> fst (Device_PropertiesChanged only_hci0
       (fst (Device_PropertiesChanged only_hci0 headset
          (''org.bluez.Device1'', [(''Alias'', JStr ''den''),
             (''Adapter'', JStr ''/org/bluez/hci0''), (''Percentage'', JNum 55)])))
       (''org.bluez.Device1'', [(''Alias'', JStr ''loft''), (''Source'', JStr ''HFP'')]))
     = headset\<lparr>d_alias := JStr ''loft'', d_adapter := Some hci0\<rparr>"
proof -
  have 1: "distinct (map fst [(''Alias'', JStr ''den''), (''Adapter'', JStr ''/org/bluez/hci0''),
       (''Percentage'', JNum 55)])"
    by simp
  have 2: "distinct (map fst [(''Alias'', JStr ''loft''), (''Source'', JStr ''HFP'')])"
    by simp
  have 3: "distinct (map fst [(''Alias'', JStr ''loft''), (''Adapter'', JStr ''/org/bluez/hci0''),
       (''Percentage'', JNum 55), (''Source'', JStr ''HFP'')])"
    by simp
  have 4: "map_of [(''Alias'', JStr ''loft''), (''Adapter'', JStr ''/org/bluez/hci0''),
       (''Percentage'', JNum 55), (''Source'', JStr ''HFP'')]
     = map_of [(''Alias'', JStr ''den''), (''Adapter'', JStr ''/org/bluez/hci0''),
         (''Percentage'', JNum 55)]
       ++ map_of [(''Alias'', JStr ''loft''), (''Source'', JStr ''HFP'')]"
    by (rule ext) (simp add: map_add_def)
  have 5: "lookups_succeed only_hci0 [(''Alias'', JStr ''den''),
       (''Adapter'', JStr ''/org/bluez/hci0''), (''Percentage'', JNum 55)]"
    by (simp add: lookups_succeed_def only_hci0_def)
  have 6: "lookups_succeed only_hci0 [(''Alias'', JStr ''loft''), (''Source'', JStr ''HFP'')]"
    by (simp add: lookups_succeed_def)
  note T = last_write_wins [OF 1 2 3 4, of hci0 cell only_hci0 headset]
  have u_a: "fst (Adapter_PropertiesChanged hci0
       (''org.bluez.Adapter1'', [(''Alias'', JStr ''loft''), (''Adapter'', JStr ''/org/bluez/hci0''),
          (''Percentage'', JNum 55), (''Source'', JStr ''HFP'')]))
     = hci0\<lparr>a_alias := JStr ''loft''\<rparr>"
    by (simp add: Adapter_PropertiesChanged_def Adapter_switch_def)
  have u_b: "fst (Battery_PropertiesChanged cell
       (''org.bluez.Battery1'', [(''Alias'', JStr ''loft''), (''Adapter'', JStr ''/org/bluez/hci0''),
          (''Percentage'', JNum 55), (''Source'', JStr ''HFP'')]))
     = cell\<lparr>b_percentage := JNum 55, b_source := Some (JStr ''HFP'')\<rparr>"
    by (simp add: Battery_PropertiesChanged_def Battery_switch_def)
  have u_d: "fst (Device_PropertiesChanged only_hci0 headset
       (''org.bluez.Device1'', [(''Alias'', JStr ''loft''), (''Adapter'', JStr ''/org/bluez/hci0''),
          (''Percentage'', JNum 55), (''Source'', JStr ''HFP'')]))
     = headset\<lparr>d_alias := JStr ''loft'', d_adapter := Some hci0\<rparr>"
    by (simp add: Device_PropertiesChanged_def Device_switch_def only_hci0_def)
  from T have 7: "fst (Adapter_PropertiesChanged
       (fst (Adapter_PropertiesChanged hci0
          (''org.bluez.Adapter1'', [(''Alias'', JStr ''den''),
             (''Adapter'', JStr ''/org/bluez/hci0''), (''Percentage'', JNum 55)])))
       (''org.bluez.Adapter1'', [(''Alias'', JStr ''loft''), (''Source'', JStr ''HFP'')]))
     = hci0\<lparr>a_alias := JStr ''loft''\<rparr>"
    unfolding u_a by (rule conjunct1)
  from T have 8: "fst (Battery_PropertiesChanged
       (fst (Battery_PropertiesChanged cell
          (''org.bluez.Battery1'', [(''Alias'', JStr ''den''),
             (''Adapter'', JStr ''/org/bluez/hci0''), (''Percentage'', JNum 55)])))
       (''org.bluez.Battery1'', [(''Alias'', JStr ''loft''), (''Source'', JStr ''HFP'')]))
     = cell\<lparr>b_percentage := JNum 55, b_source := Some (JStr ''HFP'')\<rparr>"
    unfolding u_b by (rule conjunct1 [OF conjunct2])
  from T 5 6 have 9: "fst (Device_PropertiesChanged only_hci0
       (fst (Device_PropertiesChanged only_hci0 headset
          (''org.bluez.Device1'', [(''Alias'', JStr ''den''),
             (''Adapter'', JStr ''/org/bluez/hci0''), (''Percentage'', JNum 55)])))
       (''org.bluez.Device1'', [(''Alias'', JStr ''loft''), (''Source'', JStr ''HFP'')]))
     = headset\<lparr>d_alias := JStr ''loft'', d_adapter := Some hci0\<rparr>"
    unfolding u_d by blast
  from 1 2 3 4 5 6 7 8 9 show ?thesis by (intro conjI)
qed

text \<open>
  C4 as stated fails for a device. The first notification names an adapter path whose
  lookup is rejected, which ends its handler before \<^verbatim>\<open>Name\<close> is assigned; the second
  names a path that resolves. The union assigns both fields, in either order of its
  two pairs.
\<close>

theorem last_write_wins_counterexample:
  "map_of [(''Adapter'', JStr ''/org/bluez/hci0''), (''Name'', JStr ''Buds'')]
     = map_of [(''Adapter'', JStr ''/org/bluez/hci7''), (''Name'', JStr ''Buds'')]
       ++ map_of [(''Adapter'', JStr ''/org/bluez/hci0'')]
   \<and> map_of [(''Name'', JStr ''Buds''), (''Adapter'', JStr ''/org/bluez/hci0'')]
     = map_of [(''Adapter'', JStr ''/org/bluez/hci7''), (''Name'', JStr ''Buds'')]
       ++ map_of [(''Adapter'', JStr ''/org/bluez/hci0'')]
   \<and> fst (Device_PropertiesChanged only_hci0
       (fst (Device_PropertiesChanged only_hci0 headset
          (''org.bluez.Device1'', [(''Adapter'', JStr ''/org/bluez/hci7''),
             (''Name'', JStr ''Buds'')])))
       (''org.bluez.Device1'', [(''Adapter'', JStr ''/org/bluez/hci0'')]))
     = headset\<lparr>d_adapter := Some hci0\<rparr>
   \<and> fst (Device_PropertiesChanged only_hci0 headset
       (''org.bluez.Device1'', [(''Adapter'', JStr ''/org/bluez/hci0''), (''Name'', JStr ''Buds'')]))
     = headset\<lparr>d_name := Some (JStr ''Buds''), d_adapter := Some hci0\<rparr>
   \<and> fst (Device_PropertiesChanged only_hci0 headset
       (''org.bluez.Device1'', [(''Name'', JStr ''Buds''), (''Adapter'', JStr ''/org/bluez/hci0'')]))
     = headset\<lparr>d_name := Some (JStr ''Buds''), d_adapter := Some hci0\<rparr>
   \<and> headset\<lparr>d_adapter := Some hci0\<rparr>
     \<noteq> headset\<lparr>d_name := Some (JStr ''Buds''), d_adapter := Some hci0\<rparr>"
proof (intro conjI)
  show "map_of [(''Adapter'', JStr ''/org/bluez/hci0''), (''Name'', JStr ''Buds'')]
     = map_of [(''Adapter'', JStr ''/org/bluez/hci7''), (''Name'', JStr ''Buds'')]
       ++ map_of [(''Adapter'', JStr ''/org/bluez/hci0'')]"
    by (rule ext) (simp add: map_add_def)
  show "map_of [(''Name'', JStr ''Buds''), (''Adapter'', JStr ''/org/bluez/hci0'')]
     = map_of [(''Adapter'', JStr ''/org/bluez/hci7''), (''Name'', JStr ''Buds'')]
       ++ map_of [(''Adapter'', JStr ''/org/bluez/hci0'')]"
    by (rule ext) (simp add: map_add_def)
  show "fst (Device_PropertiesChanged only_hci0
       (fst (Device_PropertiesChanged only_hci0 headset
          (''org.bluez.Device1'', [(''Adapter'', JStr ''/org/bluez/hci7''),
             (''Name'', JStr ''Buds'')])))
       (''org.bluez.Device1'', [(''Adapter'', JStr ''/org/bluez/hci0'')]))
     = headset\<lparr>d_adapter := Some hci0\<rparr>"
    by (simp add: Device_PropertiesChanged_def Device_switch_def only_hci0_def)
  show "fst (Device_PropertiesChanged only_hci0 headset
       (''org.bluez.Device1'', [(''Adapter'', JStr ''/org/bluez/hci0''), (''Name'', JStr ''Buds'')]))
     = headset\<lparr>d_name := Some (JStr ''Buds''), d_adapter := Some hci0\<rparr>"
    by (simp add: Device_PropertiesChanged_def Device_switch_def only_hci0_def)
  show "fst (Device_PropertiesChanged only_hci0 headset
       (''org.bluez.Device1'', [(''Name'', JStr ''Buds''), (''Adapter'', JStr ''/org/bluez/hci0'')]))
     = headset\<lparr>d_name := Some (JStr ''Buds''), d_adapter := Some hci0\<rparr>"
    by (simp add: Device_PropertiesChanged_def Device_switch_def only_hci0_def)
  show "headset\<lparr>d_adapter := Some hci0\<rparr>
     \<noteq> headset\<lparr>d_name := Some (JStr ''Buds''), d_adapter := Some hci0\<rparr>"
  proof
    assume "headset\<lparr>d_adapter := Some hci0\<rparr>
      = headset\<lparr>d_name := Some (JStr ''Buds''), d_adapter := Some hci0\<rparr>"
    then have "d_name (headset\<lparr>d_adapter := Some hci0\<rparr>)
      = d_name (headset\<lparr>d_name := Some (JStr ''Buds''), d_adapter := Some hci0\<rparr>)"
      by (rule arg_cong)
    then show False by (simp add: headset_def)
  qed
qed

section \<open>Construction\<close>

lemma required_Inr: "required b k = Inr v \<longleftrightarrow> map_of b k = Some v"
  by (simp add: required_def split: option.splits)

lemma required_Inl: "required b k = Inl e \<longleftrightarrow> map_of b k = None \<and> e = TypeError"
  by (auto simp: required_def split: option.splits)

lemma and_then_Inr: "and_then x g = Inr y \<longleftrightarrow> (\<exists>v. x = Inr v \<and> g v = Inr y)"
  by (cases x) simp_all

lemma and_then_Inl: "and_then x g = Inl e \<longleftrightarrow> x = Inl e \<or> (\<exists>v. x = Inr v \<and> g v = Inl e)"
  by (cases x) simp_all

lemma Adapter_fromDBusObject_Inr:
  "Adapter_fromDBusObject (path, props) = Inr a \<longleftrightarrow>
     (\<exists>address name alias cls powered discoverable pairable pairableTimeout
        discoverableTimeout discovering uuids.
        map_of props ''Address'' = Some address \<and> map_of props ''Name'' = Some name
        \<and> map_of props ''Alias'' = Some alias \<and> map_of props ''Class'' = Some cls
        \<and> map_of props ''Powered'' = Some powered
        \<and> map_of props ''Discoverable'' = Some discoverable
        \<and> map_of props ''Pairable'' = Some pairable
        \<and> map_of props ''PairableTimeout'' = Some pairableTimeout
        \<and> map_of props ''DiscoverableTimeout'' = Some discoverableTimeout
        \<and> map_of props ''Discovering'' = Some discovering
        \<and> map_of props ''UUIDs'' = Some uuids
        \<and> a = \<lparr> a_path = path, a_address = address, a_name = name, a_alias = alias,
               a_class = cls, a_powered = powered, a_discoverable = discoverable,
               a_pairable = pairable, a_pairableTimeout = pairableTimeout,
               a_discoverableTimeout = discoverableTimeout, a_discovering = discovering,
               a_uuids = uuids, a_modalias = map_of props ''Modalias'' \<rparr>)"
  unfolding Adapter_fromDBusObject_def and_then_Inr required_Inr
  by (simp add: Adapter_new_def optional_def eq_commute [of a])

lemma Adapter_fromDBusObject_Inl:
  "Adapter_fromDBusObject (path, props) = Inl e \<Longrightarrow> e = TypeError"
  unfolding Adapter_fromDBusObject_def and_then_Inl required_Inl required_Inr
  by blast

lemma Device_fromDBusObject_Inr:
  "Device_fromDBusObject (path, props) = Inr r \<longleftrightarrow>
     (\<exists>paired connected trusted blocked alias adapter legacyPairing.
        map_of props ''Paired'' = Some paired \<and> map_of props ''Connected'' = Some connected
        \<and> map_of props ''Trusted'' = Some trusted \<and> map_of props ''Blocked'' = Some blocked
        \<and> map_of props ''Alias'' = Some alias \<and> map_of props ''Adapter'' = Some adapter
        \<and> map_of props ''LegacyPairing'' = Some legacyPairing
        \<and> r = (\<lparr> d_path = path, d_name = map_of props ''Name'',
                d_icon = map_of props ''Icon'', d_class = map_of props ''Class'',
                d_appearance = map_of props ''Appearance'', d_uuids = map_of props ''UUIDs'',
                d_paired = paired, d_connected = connected, d_trusted = trusted,
                d_blocked = blocked, d_alias = alias, d_adapter = None,
                d_legacyPairing = legacyPairing, d_modalias = map_of props ''Modalias'',
                d_rssi = map_of props ''RSSI'', d_txPower = map_of props ''TxPower'',
                d_manufacturerData = map_of props ''ManufacturerData'',
                d_serviceData = map_of props ''ServiceData'',
                d_gattServices = map_of props ''GattServices'' \<rparr>, [adapter]))"
  unfolding Device_fromDBusObject_def and_then_Inr required_Inr
  by (simp add: Device_new_def optional_def eq_commute [of r])

lemma Device_fromDBusObject_Inl:
  "Device_fromDBusObject (path, props) = Inl e \<Longrightarrow> e = TypeError"
  unfolding Device_fromDBusObject_def and_then_Inl required_Inl required_Inr
  by blast

text \<open>
  C3. \<^verbatim>\<open>fromDBusObject\<close> of an adapter and of a device succeeds exactly when the
  snapshot has every required property. On success the path is the given one, every
  required field holds the snapshot's value, and every optional field holds the
  snapshot's value or null when the snapshot omits it (a device's adapter reference is
  still unset, and the lookup of its \<^verbatim>\<open>Adapter\<close> path has been started). When a
  required property is missing, the result is the TypeError of reading \<^verbatim>\<open>.value\<close>
  of a missing property, and no object.
\<close>

theorem construction_from_snapshot:
  "(\<exists>a. Adapter_fromDBusObject (path, props) = Inr a)
      = list_all (\<lambda>k. map_of props k \<noteq> None) Adapter_required
   \<and> (\<not> list_all (\<lambda>k. map_of props k \<noteq> None) Adapter_required \<longrightarrow>
        Adapter_fromDBusObject (path, props) = Inl TypeError)
   \<and> (Adapter_fromDBusObject (path, props) = Inr a \<longrightarrow>
        a_path a = path
        \<and> map_of props ''Address'' = Some (a_address a)
        \<and> map_of props ''Name'' = Some (a_name a)
        \<and> map_of props ''Alias'' = Some (a_alias a)
        \<and> map_of props ''Class'' = Some (a_class a)
        \<and> map_of props ''Powered'' = Some (a_powered a)
        \<and> map_of props ''Discoverable'' = Some (a_discoverable a)
        \<and> map_of props ''Pairable'' = Some (a_pairable a)
        \<and> map_of props ''PairableTimeout'' = Some (a_pairableTimeout a)
        \<and> map_of props ''DiscoverableTimeout'' = Some (a_discoverableTimeout a)
        \<and> map_of props ''Discovering'' = Some (a_discovering a)
        \<and> map_of props ''UUIDs'' = Some (a_uuids a)
        \<and> map_of props ''Modalias'' = a_modalias a)
   \<and> (\<exists>r. Device_fromDBusObject (path, props) = Inr r)
      = list_all (\<lambda>k. map_of props k \<noteq> None) Device_required
   \<and> (\<not> list_all (\<lambda>k. map_of props k \<noteq> None) Device_required \<longrightarrow>
        Device_fromDBusObject (path, props) = Inl TypeError)
   \<and> (Device_fromDBusObject (path, props) = Inr (d, started) \<longrightarrow>
        d_path d = path
        \<and> map_of props ''Name'' = d_name d
        \<and> map_of props ''Icon'' = d_icon d
        \<and> map_of props ''Class'' = d_class d
        \<and> map_of props ''Appearance'' = d_appearance d
        \<and> map_of props ''UUIDs'' = d_uuids d
        \<and> map_of props ''Paired'' = Some (d_paired d)
        \<and> map_of props ''Connected'' = Some (d_connected d)
        \<and> map_of props ''Trusted'' = Some (d_trusted d)
        \<and> map_of props ''Blocked'' = Some (d_blocked d)
        \<and> map_of props ''Alias'' = Some (d_alias d)
        \<and> d_adapter d = None
        \<and> map_option (\<lambda>v. [v]) (map_of props ''Adapter'') = Some started
        \<and> map_of props ''LegacyPairing'' = Some (d_legacyPairing d)
        \<and> map_of props ''Modalias'' = d_modalias d
        \<and> map_of props ''RSSI'' = d_rssi d
        \<and> map_of props ''TxPower'' = d_txPower d
        \<and> map_of props ''ManufacturerData'' = d_manufacturerData d
        \<and> map_of props ''ServiceData'' = d_serviceData d
        \<and> map_of props ''GattServices'' = d_gattServices d)"
proof -
  have A1: "(\<exists>a. Adapter_fromDBusObject (path, props) = Inr a)
      = list_all (\<lambda>k. map_of props k \<noteq> None) Adapter_required"
    unfolding Adapter_fromDBusObject_Inr by (auto simp: Adapter_required_def)
  have A2: "Adapter_fromDBusObject (path, props) = Inl TypeError"
    if "\<not> list_all (\<lambda>k. map_of props k \<noteq> None) Adapter_required"
  proof (cases "Adapter_fromDBusObject (path, props)")
    case (Inl e)
    then show ?thesis using Adapter_fromDBusObject_Inl [of path props e] by simp
  next
    case (Inr a)
    with that A1 show ?thesis by blast
  qed
  have A3: "a_path a = path
        \<and> map_of props ''Address'' = Some (a_address a)
        \<and> map_of props ''Name'' = Some (a_name a)
        \<and> map_of props ''Alias'' = Some (a_alias a)
        \<and> map_of props ''Class'' = Some (a_class a)
        \<and> map_of props ''Powered'' = Some (a_powered a)
        \<and> map_of props ''Discoverable'' = Some (a_discoverable a)
        \<and> map_of props ''Pairable'' = Some (a_pairable a)
        \<and> map_of props ''PairableTimeout'' = Some (a_pairableTimeout a)
        \<and> map_of props ''DiscoverableTimeout'' = Some (a_discoverableTimeout a)
        \<and> map_of props ''Discovering'' = Some (a_discovering a)
        \<and> map_of props ''UUIDs'' = Some (a_uuids a)
        \<and> map_of props ''Modalias'' = a_modalias a"
    if "Adapter_fromDBusObject (path, props) = Inr a"
    using that unfolding Adapter_fromDBusObject_Inr by auto
  have D1: "(\<exists>r. Device_fromDBusObject (path, props) = Inr r)
      = list_all (\<lambda>k. map_of props k \<noteq> None) Device_required"
    unfolding Device_fromDBusObject_Inr by (auto simp: Device_required_def)
  have D2: "Device_fromDBusObject (path, props) = Inl TypeError"
    if "\<not> list_all (\<lambda>k. map_of props k \<noteq> None) Device_required"
  proof (cases "Device_fromDBusObject (path, props)")
    case (Inl e)
    then show ?thesis using Device_fromDBusObject_Inl [of path props e] by simp
  next
    case (Inr r)
    with that D1 show ?thesis by blast
  qed
  have D3: "d_path d = path
        \<and> map_of props ''Name'' = d_name d
        \<and> map_of props ''Icon'' = d_icon d
        \<and> map_of props ''Class'' = d_class d
        \<and> map_of props ''Appearance'' = d_appearance d
        \<and> map_of props ''UUIDs'' = d_uuids d
        \<and> map_of props ''Paired'' = Some (d_paired d)
        \<and> map_of props ''Connected'' = Some (d_connected d)
        \<and> map_of props ''Trusted'' = Some (d_trusted d)
        \<and> map_of props ''Blocked'' = Some (d_blocked d)
        \<and> map_of props ''Alias'' = Some (d_alias d)
        \<and> d_adapter d = None
        \<and> map_option (\<lambda>v. [v]) (map_of props ''Adapter'') = Some started
        \<and> map_of props ''LegacyPairing'' = Some (d_legacyPairing d)
        \<and> map_of props ''Modalias'' = d_modalias d
        \<and> map_of props ''RSSI'' = d_rssi d
        \<and> map_of props ''TxPower'' = d_txPower d
        \<and> map_of props ''ManufacturerData'' = d_manufacturerData d
        \<and> map_of props ''ServiceData'' = d_serviceData d
        \<and> map_of props ''GattServices'' = d_gattServices d"
    if "Device_fromDBusObject (path, props) = Inr (d, started)"
    using that unfolding Device_fromDBusObject_Inr by auto
  from A1 A2 A3 D1 D2 D3 show ?thesis by blast
qed

lemma hci0_from_props: "Adapter_fromDBusObject (''/org/bluez/hci0'', hci0_props) = Inr hci0"
  by (simp add: Adapter_fromDBusObject_def required_def optional_def Adapter_new_def
        hci0_props_def hci0_def)

lemma headset_from_props:
  "Device_fromDBusObject (''/org/bluez/hci0/dev_AA'', headset_props)
     = Inr (headset, [JStr ''/org/bluez/hci0''])"
  by (simp add: Device_fromDBusObject_def required_def optional_def Device_new_def
        headset_props_def headset_def)

theorem construction_from_snapshot_witness:
  "list_all (\<lambda>k. map_of hci0_props k \<noteq> None) Adapter_required
   \<and> Adapter_fromDBusObject (''/org/bluez/hci0'', hci0_props) = Inr hci0
   \<and> map_of hci0_props ''Modalias'' = None
   \<and> a_modalias hci0 = None
   \<and> \<not> list_all (\<lambda>k. map_of (tl hci0_props) k \<noteq> None) Adapter_required
   \<and> Adapter_fromDBusObject (''/org/bluez/hci0'', tl hci0_props) = Inl TypeError
   \<and> list_all (\<lambda>k. map_of headset_props k \<noteq> None) Device_required
   \<and> Device_fromDBusObject (''/org/bluez/hci0/dev_AA'', headset_props)
       = Inr (headset, [JStr ''/org/bluez/hci0''])
   \<and> d_icon headset = None
   \<and> \<not> list_all (\<lambda>k. map_of (tl headset_props) k \<noteq> None) Device_required
   \<and> Device_fromDBusObject (''/org/bluez/hci0/dev_AA'', tl headset_props) = Inl TypeError"
proof -
  note T1 = construction_from_snapshot
    [of "''/org/bluez/hci0''" hci0_props hci0 headset "[]"]
  note T2 = construction_from_snapshot
    [of "''/org/bluez/hci0''" "tl hci0_props" hci0 headset "[]"]
  note T3 = construction_from_snapshot
    [of "''/org/bluez/hci0/dev_AA''" headset_props hci0 headset "[JStr ''/org/bluez/hci0'']"]
  note T4 = construction_from_snapshot
    [of "''/org/bluez/hci0/dev_AA''" "tl headset_props" hci0 headset "[]"]
  have 1: "list_all (\<lambda>k. map_of hci0_props k \<noteq> None) Adapter_required"
    by (simp add: hci0_props_def Adapter_required_def)
  have 3: "map_of hci0_props ''Modalias'' = None"
    by (simp add: hci0_props_def)
  from T1 hci0_from_props have 4: "a_modalias hci0 = None"
    unfolding 3 by simp
  have 5: "\<not> list_all (\<lambda>k. map_of (tl hci0_props) k \<noteq> None) Adapter_required"
    by (simp add: hci0_props_def Adapter_required_def)
  from T2 5 have 6: "Adapter_fromDBusObject (''/org/bluez/hci0'', tl hci0_props) = Inl TypeError"
    by blast
  have 7: "list_all (\<lambda>k. map_of headset_props k \<noteq> None) Device_required"
    by (simp add: headset_props_def Device_required_def)
  have i: "map_of headset_props ''Icon'' = None"
    by (simp add: headset_props_def)
  from T3 headset_from_props have 9: "d_icon headset = None"
    unfolding i by simp
  have 10: "\<not> list_all (\<lambda>k. map_of (tl headset_props) k \<noteq> None) Device_required"
    by (simp add: headset_props_def Device_required_def)
  from T4 10 have 11:
    "Device_fromDBusObject (''/org/bluez/hci0/dev_AA'', tl headset_props) = Inl TypeError"
    by blast
  from 1 hci0_from_props 3 4 5 6 7 headset_from_props 9 10 11 show ?thesis by (intro conjI)
qed

section \<open>Setters\<close>

text \<open>
  C8. Each setter of an adapter (alias, powered, discoverable, pairable, pairableTimeout,
  discoverableTimeout) and of a device (trusted, blocked, alias) returns the object with
  the field assigned and nothing else changed, whatever the remote side answers to the
  write it starts: the new value is readable at once, a failed write rolls nothing back
  and reaches the caller in no way. The sample service refuses the write, and the adapter
  reads as powered all the same.
\<close>

theorem setters_assign_before_the_write_settles:
  "Adapter_set_alias bs s a = a\<lparr>a_alias := JStr s\<rparr>
   \<and> Adapter_set_powered bs v a = a\<lparr>a_powered := JBool v\<rparr>
   \<and> Adapter_set_discoverable bs v a = a\<lparr>a_discoverable := JBool v\<rparr>
   \<and> Adapter_set_pairable bs v a = a\<lparr>a_pairable := JBool v\<rparr>
   \<and> Adapter_set_pairableTimeout bs n a = a\<lparr>a_pairableTimeout := JNum n\<rparr>
   \<and> Adapter_set_discoverableTimeout bs n a = a\<lparr>a_discoverableTimeout := JNum n\<rparr>
   \<and> Device_set_trusted bs v d = d\<lparr>d_trusted := JBool v\<rparr>
   \<and> Device_set_blocked bs v d = d\<lparr>d_blocked := JBool v\<rparr>
   \<and> Device_set_alias bs s d = d\<lparr>d_alias := JStr s\<rparr>
   \<and> Adapter_setProperty service (hci0\<lparr>a_powered := JBool True\<rparr>) ''Powered'' ''b'' (JBool True)
       = Inl (DBusError ''not permitted'')
   \<and> a_powered (Adapter_set_powered service True hci0) = JBool True"
  by (simp add: Adapter_set_alias_def Adapter_set_powered_def Adapter_set_discoverable_def
        Adapter_set_pairable_def Adapter_set_pairableTimeout_def
        Adapter_set_discoverableTimeout_def Device_set_trusted_def Device_set_blocked_def
        Device_set_alias_def Adapter_setProperty_def service_def)

section \<open>Battery.ofDevice\<close>

text \<open>
  C9. When the managed objects have an entry for the device's path and that entry lacks
  \<^verbatim>\<open>org.bluez.Battery1\<close>, \<^verbatim>\<open>Battery.ofDevice\<close> fails with the library's error about
  the unsupported interface and returns no battery; and whenever it returns a battery,
  the entry of the device's path has that interface.
\<close>

theorem battery_needs_its_interface:
  "(GetManagedObjects bs = Inr objects \<and> map_of objects (d_path dev) = Some entry
      \<and> ''org.bluez.Battery1'' \<notin> set (map fst entry) \<longrightarrow>
        Battery_ofDevice bs dev
          = Inl (Error ''bluen: Battery: Device does not support battery charge status interface''))
   \<and> (Battery_ofDevice bs dev = Inr bat \<longrightarrow>
        (\<exists>objects entry. GetManagedObjects bs = Inr objects
           \<and> map_of objects (d_path dev) = Some entry
           \<and> ''org.bluez.Battery1'' \<in> set (map fst entry)))"
proof (intro conjI impI)
  assume "GetManagedObjects bs = Inr objects \<and> map_of objects (d_path dev) = Some entry
      \<and> ''org.bluez.Battery1'' \<notin> set (map fst entry)"
  then show "Battery_ofDevice bs dev
      = Inl (Error ''bluen: Battery: Device does not support battery charge status interface'')"
    by (simp add: Battery_ofDevice_def)
next
  assume ok: "Battery_ofDevice bs dev = Inr bat"
  then obtain objects where o: "GetManagedObjects bs = Inr objects"
    by (cases "GetManagedObjects bs") (simp_all add: Battery_ofDevice_def)
  with ok obtain entry where e: "map_of objects (d_path dev) = Some entry"
    by (cases "map_of objects (d_path dev)") (simp_all add: Battery_ofDevice_def)
  with ok o have "''org.bluez.Battery1'' \<in> set (map fst entry)"
    by (simp add: Battery_ofDevice_def split: if_splits)
  with o e show "\<exists>objects entry. GetManagedObjects bs = Inr objects
      \<and> map_of objects (d_path dev) = Some entry
      \<and> ''org.bluez.Battery1'' \<in> set (map fst entry)"
    by blast
qed

theorem battery_needs_its_interface_witness:
  "GetManagedObjects service
     = Inr [(''/org/bluez/hci0/dev_AA'', [(''org.bluez.Device1'', headset_props)]),
            (''/org/bluez/hci0/dev_BB'',
               [(''org.bluez.Device1'', headset_props),
                (''org.bluez.Battery1'', [(''Percentage'', JNum 80)])]),
            (''/org/bluez/hci10/dev_X'', [(''org.bluez.Device1'', two_digit_props)])]
   \<and> d_path headset = ''/org/bluez/hci0/dev_AA''
   \<and> ''org.bluez.Battery1'' \<notin> set (map fst [(''org.bluez.Device1'', headset_props)])
   \<and> Battery_ofDevice service headset
       = Inl (Error ''bluen: Battery: Device does not support battery charge status interface'')
   \<and> Battery_ofDevice service (headset\<lparr>d_path := ''/org/bluez/hci0/dev_BB''\<rparr>)
       = Inr \<lparr> b_path = ''/org/bluez/hci0/dev_BB'', b_percentage = JNum 80,
               b_source = Some (JStr ''HFP'') \<rparr>
   \<and> ''org.bluez.Battery1''
       \<in> set (map fst [(''org.bluez.Device1'', headset_props),
                        (''org.bluez.Battery1'', [(''Percentage'', JNum 80)])])"
proof -
  have 1: "GetManagedObjects service
     = Inr [(''/org/bluez/hci0/dev_AA'', [(''org.bluez.Device1'', headset_props)]),
            (''/org/bluez/hci0/dev_BB'',
               [(''org.bluez.Device1'', headset_props),
                (''org.bluez.Battery1'', [(''Percentage'', JNum 80)])]),
            (''/org/bluez/hci10/dev_X'', [(''org.bluez.Device1'', two_digit_props)])]"
    by (simp add: service_def)
  have 2: "d_path headset = ''/org/bluez/hci0/dev_AA''"
    by (simp add: headset_def)
  have 3: "''org.bluez.Battery1'' \<notin> set (map fst [(''org.bluez.Device1'', headset_props)])"
    by simp
  have m: "map_of [(''/org/bluez/hci0/dev_AA'', [(''org.bluez.Device1'', headset_props)]),
            (''/org/bluez/hci0/dev_BB'',
               [(''org.bluez.Device1'', headset_props),
                (''org.bluez.Battery1'', [(''Percentage'', JNum 80)])]),
            (''/org/bluez/hci10/dev_X'', [(''org.bluez.Device1'', two_digit_props)])]
          (d_path headset) = Some [(''org.bluez.Device1'', headset_props)]"
    by (simp add: 2)
  from battery_needs_its_interface
    [of service _ headset "[(''org.bluez.Device1'', headset_props)]"] 1 m 3
  have 4: "Battery_ofDevice service headset
       = Inl (Error ''bluen: Battery: Device does not support battery charge status interface'')"
    by blast
  have 5: "Battery_ofDevice service (headset\<lparr>d_path := ''/org/bluez/hci0/dev_BB''\<rparr>)
       = Inr \<lparr> b_path = ''/org/bluez/hci0/dev_BB'', b_percentage = JNum 80,
               b_source = Some (JStr ''HFP'') \<rparr>"
    by (simp add: Battery_ofDevice_def service_def Battery_new_def)
  have 6: "''org.bluez.Battery1''
       \<in> set (map fst [(''org.bluez.Device1'', headset_props),
                        (''org.bluez.Battery1'', [(''Percentage'', JNum 80)])])"
    by simp
  from 1 2 3 4 5 6 show ?thesis by (intro conjI)
qed

section \<open>The adapter of a device\<close>

lemma Device_switch_keeps_adapter:
  "Device_switch f k v d = Inr (Some d1) \<Longrightarrow> k \<noteq> ''Adapter'' \<Longrightarrow> d_adapter d1 = d_adapter d"
  by (auto simp: Device_switch_def split: if_splits)

lemma Device_switch_Adapter:
  "Device_switch f ''Adapter'' v d =
     (case f v of Inl e \<Rightarrow> Inl e | Inr ad \<Rightarrow> Inr (Some (d\<lparr>d_adapter := Some ad\<rparr>)))"
  by (simp add: Device_switch_def)

lemma Device_loop_adapter:
  "distinct (map fst xs) \<Longrightarrow>
     d_adapter (fst (Device_loop f xs d))
       = latest_opt (looked_up f (map_of xs ''Adapter'')) (d_adapter d)"
proof (induction xs arbitrary: d)
  case Nil
  show ?case by simp
next
  case (Cons x xs)
  obtain k v where x: "x = (k, v)" by (cases x)
  from Cons.prems have dist: "distinct (map fst xs)" and fresh: "map_of xs k = None"
    by (auto simp: x map_of_eq_None_iff)
  show ?case
  proof (cases "k = ''Adapter''")
    case True
    show ?thesis
    proof (cases "f v")
      case (Inl e)
      then show ?thesis by (simp add: x True Device_switch_Adapter)
    next
      case (Inr ad)
      with Cons.IH [OF dist, of "d\<lparr>d_adapter := Some ad\<rparr>"] fresh
      show ?thesis by (simp add: x True Device_switch_Adapter split_beta)
    qed
  next
    case False
    then have m: "map_of (x # xs) ''Adapter'' = map_of xs ''Adapter''" by (simp add: x)
    show ?thesis
    proof (cases "Device_switch f k v d")
      case (Inl e)
      with False show ?thesis by (simp add: Device_switch_rejected)
    next
      case (Inr r)
      show ?thesis
      proof (cases r)
        case None
        with Inr Cons.IH [OF dist, of d] show ?thesis
          unfolding m by (simp add: x split_beta)
      next
        case (Some d1)
        with Inr have "d_adapter d1 = d_adapter d"
          using Device_switch_keeps_adapter [of f k v d d1] False by simp
        with Inr Some Cons.IH [OF dist, of d1] show ?thesis
          unfolding m by (simp add: x split_beta)
      qed
    qed
  qed
qed

text \<open>
  C6. The constructor of a device starts the lookup of the snapshot's \<^verbatim>\<open>Adapter\<close>
  path and returns without its result: the new device has its adapter reference unset,
  and exactly that one lookup is under way. The reference is assigned when the lookup
  resolves (and stays unset when the lookup is rejected). A notification of the device
  interface that carries \<^verbatim>\<open>Adapter\<close> makes the handler look the new path up: the
  reference becomes the adapter found, or stays as it is when the lookup is rejected;
  a notification that does not carry \<^verbatim>\<open>Adapter\<close> leaves the reference alone.
\<close>

theorem adapter_reference_resolved_later:
  "(Device_fromDBusObject (path, props) = Inr (d0, started) \<longrightarrow>
      d_adapter d0 = None \<and> (\<exists>v. map_of props ''Adapter'' = Some v \<and> started = [v]))
   \<and> Device_adapter_resolved (Inr ad) d = d\<lparr>d_adapter := Some ad\<rparr>
   \<and> Device_adapter_resolved (Inl e) d = d
   \<and> (distinct (map fst changed) \<and> map_of changed ''Adapter'' = Some v \<and> f v = Inr ad \<longrightarrow>
        d_adapter (fst (Device_PropertiesChanged f d (''org.bluez.Device1'', changed)))
          = Some ad)
   \<and> (distinct (map fst changed) \<and> map_of changed ''Adapter'' = Some v \<and> f v = Inl e \<longrightarrow>
        d_adapter (fst (Device_PropertiesChanged f d (''org.bluez.Device1'', changed)))
          = d_adapter d)
   \<and> (distinct (map fst changed) \<and> map_of changed ''Adapter'' = None \<longrightarrow>
        d_adapter (fst (Device_PropertiesChanged f d (''org.bluez.Device1'', changed)))
          = d_adapter d)"
proof -
  have c: "d_adapter d0 = None \<and> (\<exists>v. map_of props ''Adapter'' = Some v \<and> started = [v])"
    if "Device_fromDBusObject (path, props) = Inr (d0, started)"
    using that unfolding Device_fromDBusObject_Inr by auto
  have r: "Device_adapter_resolved (Inr ad) d = d\<lparr>d_adapter := Some ad\<rparr>"
    and r': "Device_adapter_resolved (Inl e) d = d"
    by (simp_all add: Device_adapter_resolved_def)
  have p: "d_adapter (fst (Device_PropertiesChanged f d (''org.bluez.Device1'', changed)))
      = latest_opt (looked_up f (map_of changed ''Adapter'')) (d_adapter d)"
    if "distinct (map fst changed)"
    using Device_loop_adapter [OF that, of f d] by (simp add: Device_PropertiesChanged_def)
  have n: "d_adapter (fst (Device_PropertiesChanged f d (''org.bluez.Device1'', changed)))
      = Some ad"
    if "distinct (map fst changed) \<and> map_of changed ''Adapter'' = Some v \<and> f v = Inr ad"
    using that p by simp
  have j: "d_adapter (fst (Device_PropertiesChanged f d (''org.bluez.Device1'', changed)))
      = d_adapter d"
    if "distinct (map fst changed) \<and> map_of changed ''Adapter'' = Some v \<and> f v = Inl e"
    using that p by simp
  have k: "d_adapter (fst (Device_PropertiesChanged f d (''org.bluez.Device1'', changed)))
      = d_adapter d"
    if "distinct (map fst changed) \<and> map_of changed ''Adapter'' = None"
    using that p by simp
  from c r r' n j k show ?thesis by blast
qed

theorem adapter_reference_resolved_later_witness:
  "Device_fromDBusObject (''/org/bluez/hci0/dev_AA'', headset_props)
     = Inr (headset, [JStr ''/org/bluez/hci0''])
   \<and> d_adapter headset = None
   \<and> map_of headset_props ''Adapter'' = Some (JStr ''/org/bluez/hci0'')
   \<and> Device_adapter_resolved (only_hci0 (JStr ''/org/bluez/hci0'')) headset
       = headset\<lparr>d_adapter := Some hci0\<rparr>
   \<and> distinct (map fst [(''RSSI'', JNum (- 60)), (''Adapter'', JStr ''/org/bluez/hci0'')])
   \<and> only_hci0 (JStr ''/org/bluez/hci0'') = Inr hci0
   \<and> d_adapter (fst (Device_PropertiesChanged only_hci0 headset
        (''org.bluez.Device1'', [(''RSSI'', JNum (- 60)), (''Adapter'', JStr ''/org/bluez/hci0'')])))
       = Some hci0
   \<and> only_hci0 (JStr ''/org/bluez/hci7'') = Inl (DBusError ''no such adapter'')
   \<and> d_adapter (fst (Device_PropertiesChanged only_hci0 (headset\<lparr>d_adapter := Some hci0\<rparr>)
        (''org.bluez.Device1'', [(''Adapter'', JStr ''/org/bluez/hci7'')])))
       = Some hci0
   \<and> d_adapter (fst (Device_PropertiesChanged only_hci0 headset
        (''org.bluez.Device1'', [(''RSSI'', JNum (- 60))]))) = None"
proof -
  note T = adapter_reference_resolved_later
    [of "''/org/bluez/hci0/dev_AA''" headset_props headset "[JStr ''/org/bluez/hci0'']"
        hci0 headset _ "[(''RSSI'', JNum (- 60)), (''Adapter'', JStr ''/org/bluez/hci0'')]"
        "JStr ''/org/bluez/hci0''" only_hci0]
  note U = adapter_reference_resolved_later
    [of "''/org/bluez/hci0/dev_AA''" headset_props headset "[JStr ''/org/bluez/hci0'']"
        hci0 "headset\<lparr>d_adapter := Some hci0\<rparr>" "DBusError ''no such adapter''"
        "[(''Adapter'', JStr ''/org/bluez/hci7'')]" "JStr ''/org/bluez/hci7''" only_hci0]
  note V = adapter_reference_resolved_later
    [of "''/org/bluez/hci0/dev_AA''" headset_props headset "[JStr ''/org/bluez/hci0'']"
        hci0 headset _ "[(''RSSI'', JNum (- 60))]" "JStr ''/org/bluez/hci0''" only_hci0]
  from T headset_from_props have 2: "d_adapter headset = None" by blast
  have 3: "map_of headset_props ''Adapter'' = Some (JStr ''/org/bluez/hci0'')"
    by (simp add: headset_props_def)
  have 7: "only_hci0 (JStr ''/org/bluez/hci0'') = Inr hci0"
    by (simp add: only_hci0_def)
  from T have 4: "Device_adapter_resolved (only_hci0 (JStr ''/org/bluez/hci0'')) headset
       = headset\<lparr>d_adapter := Some hci0\<rparr>"
    unfolding 7 by blast
  have 5: "distinct (map fst [(''RSSI'', JNum (- 60)), (''Adapter'', JStr ''/org/bluez/hci0'')])"
    by simp
  have m: "map_of [(''RSSI'', JNum (- 60)), (''Adapter'', JStr ''/org/bluez/hci0'')] ''Adapter''
      = Some (JStr ''/org/bluez/hci0'')"
    by simp
  from T 5 m 7 have 8: "d_adapter (fst (Device_PropertiesChanged only_hci0 headset
        (''org.bluez.Device1'', [(''RSSI'', JNum (- 60)), (''Adapter'', JStr ''/org/bluez/hci0'')])))
       = Some hci0"
    by blast
  have u1: "distinct (map fst [(''Adapter'', JStr ''/org/bluez/hci7'')])" by simp
  have u2: "map_of [(''Adapter'', JStr ''/org/bluez/hci7'')] ''Adapter''
      = Some (JStr ''/org/bluez/hci7'')"
    by simp
  have u3: "only_hci0 (JStr ''/org/bluez/hci7'') = Inl (DBusError ''no such adapter'')"
    by (simp add: only_hci0_def)
  have u4: "d_adapter (headset\<lparr>d_adapter := Some hci0\<rparr>) = Some hci0" by simp
  from U u1 u2 u3 have "d_adapter (fst (Device_PropertiesChanged only_hci0
        (headset\<lparr>d_adapter := Some hci0\<rparr>)
        (''org.bluez.Device1'', [(''Adapter'', JStr ''/org/bluez/hci7'')])))
       = d_adapter (headset\<lparr>d_adapter := Some hci0\<rparr>)"
    by blast
  then have 9: "d_adapter (fst (Device_PropertiesChanged only_hci0
        (headset\<lparr>d_adapter := Some hci0\<rparr>)
        (''org.bluez.Device1'', [(''Adapter'', JStr ''/org/bluez/hci7'')])))
       = Some hci0"
    unfolding u4 .
  have e5: "distinct (map fst [(''RSSI'', JNum (- 60))])" by simp
  have em: "map_of [(''RSSI'', JNum (- 60))] ''Adapter'' = None" by simp
  from V e5 em have "d_adapter (fst (Device_PropertiesChanged only_hci0 headset
        (''org.bluez.Device1'', [(''RSSI'', JNum (- 60))]))) = d_adapter headset"
    by blast
  then have 10: "d_adapter (fst (Device_PropertiesChanged only_hci0 headset
        (''org.bluez.Device1'', [(''RSSI'', JNum (- 60))]))) = None"
    unfolding 2 .
  from headset_from_props 2 3 4 5 7 8 u3 9 10 show ?thesis by (intro conjI)
qed

section \<open>Device.allOfAdapter\<close>

lemma allOfAdapter_filters:
  "Device_allOfAdapter bs adapter =
     and_then (GetManagedObjects bs) (\<lambda>objects.
       map_throw
         (\<lambda>obj. case map_of (snd obj) ''org.bluez.Device1'' of
                  None \<Rightarrow> Inl TypeError
                | Some props \<Rightarrow> Device_fromDBusObject (fst obj, props))
         (filter (\<lambda>obj. prefix (a_path adapter) (fst obj)
                   \<and> ''org.bluez.Device1'' \<in> set (map fst (snd obj))) objects))"
  by (simp add: Device_allOfAdapter_def conj_commute)

text \<open>
  C7, at the input where the code departs from it. The adapter is \<^verbatim>\<open>/org/bluez/hci1\<close>;
  the service has no device of it, but a device of the adapter \<^verbatim>\<open>/org/bluez/hci10\<close>,
  whose path has the string \<^verbatim>\<open>/org/bluez/hci1\<close> as a prefix. \<^verbatim>\<open>allOfAdapter\<close>
  returns that device: shown are the path of each device returned and the adapter path
  it asks to look up.
\<close>

theorem allOfAdapter_string_prefix:
  "a_path hci1 = ''/org/bluez/hci1''
   \<and> map_sum id (map (\<lambda>r. (d_path (fst r), snd r))) (Device_allOfAdapter service hci1)
     = Inr [(''/org/bluez/hci10/dev_X'', [JStr ''/org/bluez/hci10''])]"
  by (simp add: Device_allOfAdapter_def service_def hci1_def hci0_def
        Device_fromDBusObject_def required_def optional_def Device_new_def
        two_digit_props_def headset_props_def)

end
